theory Spec2Isabelle
  imports Complex_Main
begin

section \<open>Data model (types.ts)\<close>

text \<open>
  Optional fields of the TypeScript interfaces are \<open>option\<close> values: \<open>None\<close> is
  \<^verbatim>\<open>undefined\<close> (the field is absent). Field names that clash with names of HOL carry a
  suffix.
\<close>

datatype MessageRole = User | Bot

record ImageFile =
  base64 :: "string option"
  mimeType :: string

datatype ResponseType = Image | Text

datatype AspectRatio = AR_1_1 | AR_16_9 | AR_9_16 | AR_4_3 | AR_3_4

text \<open>\<open>VariationCount\<close> is the type \<^verbatim>\<open>1 | 2 | 4\<close>; the model admits every natural number.\<close>

record GenerationOptions =
  aspectRatio :: AspectRatio
  variations :: nat
  negativePrompt :: string

record RequestPayload =
  prompt :: string
  images :: "ImageFile list"
  options :: GenerationOptions
  responseType :: ResponseType

text \<open>
  At run time the \<open>requestPayload\<close> of an entry is either a complete payload or, after
  \<^verbatim>\<open>{ ...msg.requestPayload!, prompt: newPrompt }\<close> was evaluated on an entry without a
  payload, an object that has the field \<open>prompt\<close> only (spreading \<^verbatim>\<open>undefined\<close> adds
  nothing).
\<close>

datatype PayloadObject = Complete RequestPayload | PromptOnly string

record ChatMessage =
  id_msg :: string
  role :: MessageRole
  text_msg :: "string option"
  imagePreviewUrls :: "string list option"
  isEditing :: "bool option"
  requestPayload :: "PayloadObject option"
  generatedImages :: "string list option"
  isLoading :: "bool option"
  error_msg :: "string option"
  userMessageId :: "string option"

text \<open>A thrown value: an instance of \<open>Error\<close> with its message, or anything else.\<close>

datatype js_exn = Error string | NonError

text \<open>Truthiness of an optional string and of an optional boolean.\<close>

definition truthy :: "string option \<Rightarrow> bool" where
  "truthy s = (case s of None \<Rightarrow> False | Some x \<Rightarrow> x \<noteq> [])"

definition truthy_bool :: "bool option \<Rightarrow> bool" where
  "truthy_bool b = (case b of None \<Rightarrow> False | Some x \<Rightarrow> x)"

text \<open>
  \<open>Promise.all\<close>: the values in the order of the promises when all fulfil, otherwise a
  rejection. The browser reports the rejection that happens first in time; the model
  reports the one of the least index.
\<close>

fun Promise_all :: "(js_exn + 'a) list \<Rightarrow> js_exn + 'a list" where
  "Promise_all [] = Inr []"
| "Promise_all (Inl e # ps) = Inl e"
| "Promise_all (Inr x # ps) = (case Promise_all ps of Inl e \<Rightarrow> Inl e | Inr xs \<Rightarrow> Inr (x # xs))"

text \<open>
  \<open>Number.prototype.toString\<close> on a non-negative integer: its decimal digits.
  \<open>Date.now()\<close> is a natural number of milliseconds.
\<close>

definition digit :: "nat \<Rightarrow> char" where
  "digit d = ''0123456789'' ! d"

function toString :: "nat \<Rightarrow> string" where
  "toString n = (if n < 10 then [digit n] else toString (n div 10) @ [digit (n mod 10)])"
  by pat_completeness auto
termination
  by (relation "measure id") auto

declare toString.simps [simp del]

section \<open>The generation client (services/geminiService.ts)\<close>

text \<open>
  A part of a message is \<^verbatim>\<open>{ inlineData: { data, mimeType } }\<close> or \<^verbatim>\<open>{ text }\<close>. The
  client reads \<^verbatim>\<open>part.inlineData?.data\<close> of the parts of a response, which is
  \<^verbatim>\<open>undefined\<close> on a part without inline data.
\<close>

datatype Part = InlineDataPart "string option" string | TextPart string

fun inlineData_data :: "Part \<Rightarrow> string option" where
  "inlineData_data (InlineDataPart d m) = d"
| "inlineData_data (TextPart t) = None"

datatype Modality = IMAGE

record RequestConfig =
  responseModalities :: "Modality list"
  imageConfig_aspectRatio :: AspectRatio

text \<open>The argument of \<open>generateContent\<close>: \<^verbatim>\<open>{ model: modelName, ...request }\<close>.\<close>

record GenerateContentRequest =
  model :: string
  contents :: "Part list list"
  config :: "RequestConfig option"

text \<open>
  A response: what its \<open>text\<close> getter yields, and its candidates. In the SDK the
  \<open>content\<close> of a candidate and the \<open>parts\<close> of a content are optional (a candidate that
  was blocked comes without content); the client guards \<^verbatim>\<open>response.candidates?.\<close> and
  \<^verbatim>\<open>part.inlineData?.data\<close> but reads \<^verbatim>\<open>candidate.content.parts\<close> unguarded.
\<close>

datatype Content = Content "Part list option"

datatype Candidate = Candidate "Content option"

record GenerateContentResponse =
  text_response :: "string option"
  candidates :: "Candidate list option"

text \<open>The value \<open>callGeminiApi\<close> resolves to: \<^verbatim>\<open>{ images?: string[]; text?: string }\<close>.\<close>

record ApiResult =
  images_result :: "string list option"
  text_result :: "string option"

text \<open>
  Module initialisation: without a (non-empty) \<open>API_KEY\<close> in the environment the module
  throws, otherwise it constructs the client \<open>ai\<close>.
\<close>

datatype GoogleGenAI = GoogleGenAI string

definition geminiService_init :: "(string \<rightharpoonup> string) \<Rightarrow> js_exn + GoogleGenAI" where
  "geminiService_init env =
     (if \<not> truthy (env ''API_KEY'')
      then Inl (Error ''API_KEY environment variable is not set'')
      else Inr (GoogleGenAI (the (env ''API_KEY''))))"

text \<open>
  The remote service is a parameter: \<open>gen ai i request\<close> is how the \<open>i\<close>-th call of
  \<open>ai.models.generateContent\<close> within one run of \<open>callGeminiApi\<close> ends, a rejection
  or a response.
\<close>

type_synonym remote = "GoogleGenAI \<Rightarrow> nat \<Rightarrow> GenerateContentRequest \<Rightarrow> js_exn + GenerateContentResponse"

definition fileToGenerativePart :: "string option \<Rightarrow> string \<Rightarrow> Part" where
  "fileToGenerativePart b m = InlineDataPart b m"

definition modelName :: "RequestPayload \<Rightarrow> string" where
  "modelName params =
     (if responseType params = Image then ''gemini-2.5-flash-image'' else ''gemini-2.5-flash'')"

definition fullPrompt :: "RequestPayload \<Rightarrow> string" where
  "fullPrompt params =
     (if responseType params = Image \<and> negativePrompt (options params) \<noteq> []
      then prompt params @ ''. Negative prompt: do not include '' @ negativePrompt (options params)
      else prompt params)"

definition request :: "RequestPayload \<Rightarrow> GenerateContentRequest" where
  "request params =
     (let parts = map (\<lambda>img. fileToGenerativePart (base64 img) (mimeType img)) (images params)
                  @ [TextPart (fullPrompt params)]
      in \<lparr>model = modelName params,
          contents = [parts],
          config = (if responseType params = Image
                    then Some \<lparr>responseModalities = [IMAGE],
                               imageConfig_aspectRatio = aspectRatio (options params)\<rparr>
                    else None)\<rparr>)"

definition variationCount :: "RequestPayload \<Rightarrow> nat" where
  "variationCount params =
     (if responseType params = Image then variations (options params) else 1)"

text \<open>
  The three nested \<open>forEach\<close> loops that fill \<open>base64Images\<close>. A loop stops at the
  first element on which its body throws; \<open>forEach_collect\<close> is such a loop whose body
  either throws or yields the strings it pushes. On a candidate without content, or on a
  content without parts, the body of the middle loop throws a \<open>TypeError\<close>.
\<close>

fun forEach_collect :: "('a \<Rightarrow> js_exn + string list) \<Rightarrow> 'a list \<Rightarrow> js_exn + string list" where
  "forEach_collect body [] = Inr []"
| "forEach_collect body (x # xs) =
     (case body x of
        Inl e \<Rightarrow> Inl e
      | Inr pushed \<Rightarrow>
          (case forEach_collect body xs of
             Inl e \<Rightarrow> Inl e
           | Inr later \<Rightarrow> Inr (pushed @ later)))"

definition partImages :: "Part list \<Rightarrow> string list" where
  "partImages ps = [the (inlineData_data p). p \<leftarrow> ps, truthy (inlineData_data p)]"

definition candidateImages :: "Candidate \<Rightarrow> js_exn + string list" where
  "candidateImages candidate =
     (case candidate of
        Candidate None \<Rightarrow>
          Inl (Error ''Cannot read properties of undefined (reading 'parts')'')
      | Candidate (Some (Content None)) \<Rightarrow>
          Inl (Error ''Cannot read properties of undefined (reading 'forEach')'')
      | Candidate (Some (Content (Some ps))) \<Rightarrow> Inr (partImages ps))"

definition responseImages :: "GenerateContentResponse \<Rightarrow> js_exn + string list" where
  "responseImages r =
     (case candidates r of
        None \<Rightarrow> Inr []
      | Some cs \<Rightarrow> forEach_collect candidateImages cs)"

definition base64Images :: "GenerateContentResponse list \<Rightarrow> js_exn + string list" where
  "base64Images responses = forEach_collect responseImages responses"

text \<open>The body of the \<open>try\<close> block once the responses are there.\<close>

definition fromResponses :: "RequestPayload \<Rightarrow> GenerateContentResponse list \<Rightarrow> js_exn + ApiResult" where
  "fromResponses params responses =
     (if responseType params = Text then
        (case responses of
           [] \<Rightarrow> Inl (Error ''Cannot read properties of undefined (reading 'text')'')
         | r # _ \<Rightarrow>
             if \<not> truthy (text_response r)
             then Inl (Error ''The model returned an empty text response.'')
             else Inr \<lparr>images_result = None, text_result = text_response r\<rparr>)
      else
        (case base64Images responses of
           Inl e \<Rightarrow> Inl e
         | Inr collected \<Rightarrow>
             if length collected = 0
             then Inl (Error ''No images were generated. The prompt may have been blocked or the response was empty.'')
             else Inr \<lparr>images_result = Some collected, text_result = None\<rparr>))"

text \<open>The \<open>catch\<close> block: what is thrown instead of the caught value.\<close>

definition rewrap :: "js_exn \<Rightarrow> js_exn" where
  "rewrap e =
     (case e of
        Error m \<Rightarrow> Error (''API Error: '' @ m)
      | NonError \<Rightarrow> Error ''An unknown error occurred while calling the API.'')"

definition exn_text :: "js_exn \<Rightarrow> string" where
  "exn_text e = (case e of Error m \<Rightarrow> m | NonError \<Rightarrow> [])"

text \<open>
  A run of \<open>callGeminiApi\<close>: the remote calls it issued, the lines it wrote with
  \<open>console.error\<close> (label and argument), and how its promise settled (\<open>Inl\<close>: rejected).
  In the function, \<open>promises\<close> pairs the argument of each call of \<open>generateContent\<close>
  with the way that call ends; all calls are made before the first response is awaited.
\<close>

record ApiRun =
  issued :: "GenerateContentRequest list"
  logged :: "(string \<times> string) list"
  outcome :: "js_exn + ApiResult"

definition callGeminiApi :: "remote \<Rightarrow> GoogleGenAI \<Rightarrow> RequestPayload \<Rightarrow> ApiRun" where
  "callGeminiApi gen ai params =
     (let promises = map (\<lambda>i. (request params, gen ai i (request params)))
                       [0 ..< variationCount params];
          attempt = (case Promise_all (map snd promises) of
                       Inl e \<Rightarrow> Inl e
                     | Inr responses \<Rightarrow> fromResponses params responses)
      in \<lparr>issued = map fst promises,
          logged = (case attempt of
                      Inl e \<Rightarrow> [(''Error calling Gemini API:'', exn_text e)]
                    | Inr _ \<Rightarrow> []),
          outcome = (case attempt of Inl e \<Rightarrow> Inl (rewrap e) | Inr r \<Rightarrow> Inr r)\<rparr>)"

text \<open>
  Called on an object that has only a \<open>prompt\<close>, the function throws while it
  destructures \<open>options\<close>, before the \<open>try\<close> block and before any remote call.
\<close>

definition callGeminiApi_object :: "remote \<Rightarrow> GoogleGenAI \<Rightarrow> PayloadObject \<Rightarrow> ApiRun" where
  "callGeminiApi_object gen ai obj =
     (case obj of
        Complete params \<Rightarrow> callGeminiApi gen ai params
      | PromptOnly p \<Rightarrow>
          \<lparr>issued = [], logged = [],
           outcome = Inl (Error ''Cannot destructure property 'aspectRatio' of 'options' as it is undefined.'')\<rparr>)"


text \<open>
  Importing the module and calling its export: the call exists only when the
  initialisation did not throw.
\<close>

definition geminiService :: "(string \<rightharpoonup> string) \<Rightarrow> remote \<Rightarrow> RequestPayload \<Rightarrow> js_exn + ApiRun" where
  "geminiService env gen params =
     (case geminiService_init env of
        Inl e \<Rightarrow> Inl e
      | Inr ai \<Rightarrow> Inr (callGeminiApi gen ai params))"

subsection \<open>Fan-out and join\<close>

lemma Promise_all_Inr:
  "(\<forall>i < length ps. ps ! i = Inr (xs ! i)) \<Longrightarrow> length xs = length ps \<Longrightarrow> Promise_all ps = Inr xs"
proof (induction ps arbitrary: xs)
  case Nil
  then show ?case by simp
next
  case (Cons p ps)
  then obtain y ys where xs: "xs = y # ys" by (cases xs) auto
  from Cons.prems xs have p: "p = Inr y" by fastforce
  from Cons.prems xs have "\<forall>i < length ps. ps ! i = Inr (ys ! i)" by fastforce
  with Cons.IH [of ys] Cons.prems xs have "Promise_all ps = Inr ys" by simp
  with p xs show ?case by simp
qed

lemma Promise_all_Inl:
  "i < length ps \<Longrightarrow> ps ! i = Inl e \<Longrightarrow>
     \<exists>j e'. j < length ps \<and> ps ! j = Inl e' \<and> Promise_all ps = Inl e'"
proof (induction ps arbitrary: i)
  case Nil
  then show ?case by simp
next
  case (Cons p ps)
  show ?case
  proof (cases p)
    case (Inl a)
    then have "0 < length (p # ps) \<and> (p # ps) ! 0 = Inl a \<and> Promise_all (p # ps) = Inl a" by simp
    then show ?thesis by blast
  next
    case (Inr b)
    with Cons.prems obtain k where k: "i = Suc k" by (cases i) auto
    with Cons.prems have "k < length ps" "ps ! k = Inl e" by auto
    from Cons.IH [OF this] obtain j e' where
      j: "j < length ps" "ps ! j = Inl e'" "Promise_all ps = Inl e'" by blast
    with Inr have "Suc j < length (p # ps) \<and> (p # ps) ! Suc j = Inl e' \<and> Promise_all (p # ps) = Inl e'"
      by simp
    then show ?thesis by blast
  qed
qed

lemma issued_callGeminiApi:
  "issued (callGeminiApi gen ai params) = replicate (variationCount params) (request params)"
  by (simp add: callGeminiApi_def Let_def comp_def map_replicate_const)

lemma outcome_callGeminiApi:
  "outcome (callGeminiApi gen ai params) =
     (case Promise_all (map (\<lambda>i. gen ai i (request params)) [0 ..< variationCount params]) of
        Inl e \<Rightarrow> Inl (rewrap e)
      | Inr responses \<Rightarrow>
          (case fromResponses params responses of Inl e \<Rightarrow> Inl (rewrap e) | Inr r \<Rightarrow> Inr r))"
  by (simp add: callGeminiApi_def Let_def comp_def split: sum.split)

lemma outcome_all_fulfilled:
  assumes "length rs = variationCount params"
    and "\<forall>i < variationCount params. gen ai i (request params) = Inr (rs ! i)"
  shows "outcome (callGeminiApi gen ai params) =
           (case fromResponses params rs of Inl e \<Rightarrow> Inl (rewrap e) | Inr r \<Rightarrow> Inr r)"
proof -
  let ?ps = "map (\<lambda>i. gen ai i (request params)) [0 ..< variationCount params]"
  have "Promise_all ?ps = Inr rs"
    by (rule Promise_all_Inr) (use assms in simp_all)
  then show ?thesis
    by (simp add: outcome_callGeminiApi)
qed

lemma outcome_some_rejected:
  assumes "i < variationCount params" and "gen ai i (request params) = Inl e"
  shows "\<exists>j e'. j < variationCount params \<and> gen ai j (request params) = Inl e' \<and>
           outcome (callGeminiApi gen ai params) = Inl (rewrap e')"
proof -
  let ?ps = "map (\<lambda>i. gen ai i (request params)) [0 ..< variationCount params]"
  have "i < length ?ps" "?ps ! i = Inl e" using assms by simp_all
  from Promise_all_Inl [OF this] obtain j e' where
    j: "j < length ?ps" "?ps ! j = Inl e'" "Promise_all ?ps = Inl e'" by blast
  then have "j < variationCount params" "gen ai j (request params) = Inl e'" by simp_all
  moreover from j have "outcome (callGeminiApi gen ai params) = Inl (rewrap e')"
    by (simp add: outcome_callGeminiApi)
  ultimately show ?thesis by blast
qed

lemma forEach_collect_all:
  "(\<forall>x \<in> set xs. body x = Inr (pushed x)) \<Longrightarrow>
     forEach_collect body xs = Inr (concat (map pushed xs))"
  by (induction xs) simp_all

lemma forEach_collect_thrown:
  "forEach_collect body xs = Inl e \<Longrightarrow> \<exists>x \<in> set xs. body x = Inl e"
  by (induction xs) (auto split: sum.splits)

text \<open>
  What the client returns once all calls have fulfilled. In image mode the images are
  those that the loops have collected, in call, candidate and part order, unless a loop
  body has thrown; in text mode it is the text of the first response.
\<close>

lemma callGeminiApi_image_result:
  assumes "responseType params = Image"
    and "length rs = variations (options params)"
    and "\<forall>i < variations (options params). gen ai i (request params) = Inr (rs ! i)"
  shows "outcome (callGeminiApi gen ai params) =
     (case base64Images rs of
        Inl e \<Rightarrow> Inl (rewrap e)
      | Inr collected \<Rightarrow>
          if collected = []
          then Inl (Error ''API Error: No images were generated. The prompt may have been blocked or the response was empty.'')
          else Inr \<lparr>images_result = Some collected, text_result = None\<rparr>)"
proof -
  from assms(1) have n: "variationCount params = variations (options params)"
    by (simp add: variationCount_def)
  have "outcome (callGeminiApi gen ai params) =
          (case fromResponses params rs of Inl e \<Rightarrow> Inl (rewrap e) | Inr r \<Rightarrow> Inr r)"
    by (rule outcome_all_fulfilled) (use assms n in simp_all)
  with assms(1) show ?thesis
    by (simp add: fromResponses_def rewrap_def split: sum.split)
qed

lemma callGeminiApi_text_result:
  assumes "responseType params = Text" and "gen ai 0 (request params) = Inr r"
  shows "outcome (callGeminiApi gen ai params) =
     (if truthy (text_response r)
      then Inr \<lparr>images_result = None, text_result = text_response r\<rparr>
      else Inl (Error ''API Error: The model returned an empty text response.''))"
proof -
  from assms(1) have n: "variationCount params = 1"
    by (simp add: variationCount_def)
  have "outcome (callGeminiApi gen ai params) =
          (case fromResponses params [r] of Inl e \<Rightarrow> Inl (rewrap e) | Inr r \<Rightarrow> Inr r)"
    by (rule outcome_all_fulfilled) (use assms n in simp_all)
  with assms(1) show ?thesis
    by (simp add: fromResponses_def rewrap_def)
qed

lemma base64Images_with_content:
  assumes "\<forall>r \<in> set rs. \<exists>cs. candidates r = Some (map (\<lambda>ps. Candidate (Some (Content (Some ps)))) cs)"
  shows "\<exists>collected. base64Images rs = Inr collected"
proof -
  have "\<forall>r \<in> set rs. \<exists>imgs. responseImages r = Inr imgs"
  proof
    fix r assume "r \<in> set rs"
    with assms obtain cs where
      cs: "candidates r = Some (map (\<lambda>ps. Candidate (Some (Content (Some ps)))) cs)" by blast
    have "forEach_collect candidateImages (map (\<lambda>ps. Candidate (Some (Content (Some ps)))) cs)
            = Inr (concat (map (\<lambda>c. case c of Candidate (Some (Content (Some ps))) \<Rightarrow> partImages ps | _ \<Rightarrow> [])
                  (map (\<lambda>ps. Candidate (Some (Content (Some ps)))) cs)))"
      by (rule forEach_collect_all) (auto simp: candidateImages_def)
    with cs show "\<exists>imgs. responseImages r = Inr imgs"
      by (simp add: responseImages_def)
  qed
  then have "\<forall>r \<in> set rs. responseImages r = Inr (case responseImages r of Inr imgs \<Rightarrow> imgs | Inl _ \<Rightarrow> [])"
    by auto
  from forEach_collect_all [OF this] show ?thesis
    by (auto simp: base64Images_def)
qed

text \<open>
  C3. The client issues exactly \<open>variations\<close> remote calls in image mode and one in text
  mode, and on responses whose candidates all carry content it returns what the claim says
  (the lemmas above). The claim fails where a call fulfils with a candidate that has no
  content, as a blocked candidate has: the unguarded \<open>candidate.content.parts\<close> throws a
  \<open>TypeError\<close>, the \<open>catch\<close> block re-wraps it, and the images that were returned are
  lost. Here, in image mode with two variations, both calls fulfil; the first response
  carries the images \<open>AAAA\<close> and \<open>BBBB\<close>, the candidate of the second has no content.
  The claim asks for the sequence of these two images; the call rejects.
\<close>

theorem blocked_candidate_rejects_whole_call:
  "issued (callGeminiApi
      (\<lambda>ai i req. if i = 0
         then Inr \<lparr>text_response = None,
                   candidates = Some [Candidate (Some (Content (Some
                     [InlineDataPart (Some ''AAAA'') ''image/png'',
                      InlineDataPart (Some ''BBBB'') ''image/png''])))]\<rparr>
         else Inr \<lparr>text_response = None, candidates = Some [Candidate None]\<rparr>)
      (GoogleGenAI ''key'')
      \<lparr>prompt = ''a cat'', images = [],
       options = \<lparr>aspectRatio = AR_1_1, variations = 2, negativePrompt = []\<rparr>,
       responseType = Image\<rparr>)
     = [request \<lparr>prompt = ''a cat'', images = [],
                 options = \<lparr>aspectRatio = AR_1_1, variations = 2, negativePrompt = []\<rparr>,
                 responseType = Image\<rparr>,
        request \<lparr>prompt = ''a cat'', images = [],
                 options = \<lparr>aspectRatio = AR_1_1, variations = 2, negativePrompt = []\<rparr>,
                 responseType = Image\<rparr>]
   \<and> responseImages \<lparr>text_response = None,
                   candidates = Some [Candidate (Some (Content (Some
                     [InlineDataPart (Some ''AAAA'') ''image/png'',
                      InlineDataPart (Some ''BBBB'') ''image/png''])))]\<rparr>
     = Inr [''AAAA'', ''BBBB'']
   \<and> outcome (callGeminiApi
      (\<lambda>ai i req. if i = 0
         then Inr \<lparr>text_response = None,
                   candidates = Some [Candidate (Some (Content (Some
                     [InlineDataPart (Some ''AAAA'') ''image/png'',
                      InlineDataPart (Some ''BBBB'') ''image/png''])))]\<rparr>
         else Inr \<lparr>text_response = None, candidates = Some [Candidate None]\<rparr>)
      (GoogleGenAI ''key'')
      \<lparr>prompt = ''a cat'', images = [],
       options = \<lparr>aspectRatio = AR_1_1, variations = 2, negativePrompt = []\<rparr>,
       responseType = Image\<rparr>)
     = Inl (Error ''API Error: Cannot read properties of undefined (reading 'parts')'')"
proof -
  let ?r0 = "\<lparr>text_response = None,
                   candidates = Some [Candidate (Some (Content (Some
                     [InlineDataPart (Some ''AAAA'') ''image/png'',
                      InlineDataPart (Some ''BBBB'') ''image/png''])))]\<rparr>"
  let ?r1 = "\<lparr>text_response = None, candidates = Some [Candidate None]\<rparr>"
  let ?gen = "\<lambda>(ai::GoogleGenAI) (i::nat) (req::GenerateContentRequest).
      if i = 0 then Inr ?r0 else Inr ?r1 :: js_exn + GenerateContentResponse"
  let ?ai = "GoogleGenAI ''key''"
  let ?p = "\<lparr>prompt = ''a cat'', images = [],
       options = \<lparr>aspectRatio = AR_1_1, variations = 2, negativePrompt = []\<rparr>,
       responseType = Image\<rparr>"
  have calls: "issued (callGeminiApi ?gen ?ai ?p) = [request ?p, request ?p]"
    by (simp add: issued_callGeminiApi variationCount_def numeral_2_eq_2)
  have first: "responseImages ?r0 = Inr [''AAAA'', ''BBBB'']"
    by (simp add: responseImages_def candidateImages_def partImages_def truthy_def)
  have second: "responseImages ?r1 = Inl (Error ''Cannot read properties of undefined (reading 'parts')'')"
    by (simp add: responseImages_def candidateImages_def)
  have "outcome (callGeminiApi ?gen ?ai ?p) =
     (case base64Images [?r0, ?r1] of
        Inl e \<Rightarrow> Inl (rewrap e)
      | Inr collected \<Rightarrow>
          if collected = []
          then Inl (Error ''API Error: No images were generated. The prompt may have been blocked or the response was empty.'')
          else Inr \<lparr>images_result = Some collected, text_result = None\<rparr>)"
    by (rule callGeminiApi_image_result) (simp_all add: less_Suc_eq numeral_2_eq_2)
  then have rejected: "outcome (callGeminiApi ?gen ?ai ?p) =
      Inl (Error ''API Error: Cannot read properties of undefined (reading 'parts')'')"
    by (simp add: base64Images_def first second rewrap_def)
  from calls first rejected show ?thesis by (intro conjI)
qed

text \<open>
  C4. In image mode, when any one of the \<open>variations\<close> remote calls rejects, the whole
  call rejects: no images are returned. The rejection is one of the remote rejections
  re-wrapped: an \<open>Error\<close> whose message is the remote message behind the prefix
  \<open>API Error:\<close>, or, for a thrown value that is not an \<open>Error\<close>, the generic message.
\<close>

theorem any_failed_call_fails_request:
  assumes "responseType params = Image"
    and "i < variations (options params)"
    and "gen ai i (request params) = Inl e"
  shows "\<exists>j e'. j < variations (options params) \<and> gen ai j (request params) = Inl e' \<and>
           outcome (callGeminiApi gen ai params) =
             Inl (case e' of
                    Error m \<Rightarrow> Error (''API Error: '' @ m)
                  | NonError \<Rightarrow> Error ''An unknown error occurred while calling the API.'')"
proof -
  from assms(1) have n: "variationCount params = variations (options params)"
    by (simp add: variationCount_def)
  from outcome_some_rejected [of i params gen ai e] assms n
  show ?thesis by (simp add: rewrap_def)
qed

theorem any_failed_call_fails_request_witness:
  "outcome (callGeminiApi
      (\<lambda>ai i req. if i = 1 then Inl (Error ''503 overloaded'')
                   else Inr \<lparr>text_response = None,
                             candidates = Some [Candidate (Some (Content (Some [InlineDataPart (Some ''AAAA'') ''image/png''])))]\<rparr>)
      (GoogleGenAI ''key'')
      \<lparr>prompt = ''a cat'', images = [],
       options = \<lparr>aspectRatio = AR_16_9, variations = 4, negativePrompt = []\<rparr>,
       responseType = Image\<rparr>)
     = Inl (Error ''API Error: 503 overloaded'')"
proof -
  let ?gen = "\<lambda>(ai::GoogleGenAI) (i::nat) (req::GenerateContentRequest).
                   if i = 1 then Inl (Error ''503 overloaded'')
                   else Inr \<lparr>text_response = None,
                             candidates = Some [Candidate (Some (Content (Some [InlineDataPart (Some ''AAAA'') ''image/png''])))]\<rparr>"
  let ?ai = "GoogleGenAI ''key''"
  let ?p = "\<lparr>prompt = ''a cat'', images = [],
       options = \<lparr>aspectRatio = AR_16_9, variations = 4, negativePrompt = []\<rparr>,
       responseType = Image\<rparr>"
  have h1: "responseType ?p = Image" by simp
  have h2: "(1::nat) < variations (options ?p)" by simp
  have h3: "?gen ?ai 1 (request ?p) = Inl (Error ''503 overloaded'')" by simp
  from any_failed_call_fails_request [where params = ?p and gen = ?gen and ai = ?ai and i = 1
      and e = "Error ''503 overloaded''", OF h1 h2 h3]
  obtain j e' where j: "?gen ?ai j (request ?p) = Inl e'"
    and out: "outcome (callGeminiApi ?gen ?ai ?p) =
             Inl (case e' of
                    Error m \<Rightarrow> Error (''API Error: '' @ m)
                  | NonError \<Rightarrow> Error ''An unknown error occurred while calling the API.'')"
    by blast
  from j have "e' = Error ''503 overloaded''" by (simp split: if_splits)
  with out show ?thesis by simp
qed

subsection \<open>The key check at module load\<close>

text \<open>
  C10. Without a non-empty \<open>API_KEY\<close> in the environment the module throws
  \<open>API_KEY environment variable is not set\<close> when it is loaded, so that no run of
  \<open>callGeminiApi\<close> exists; conversely every run was made with a configured key.
\<close>

theorem api_key_required:
  "(\<not> truthy (env ''API_KEY'') \<longrightarrow>
      geminiService_init env = Inl (Error ''API_KEY environment variable is not set'')
      \<and> geminiService env gen params = Inl (Error ''API_KEY environment variable is not set''))
   \<and> (\<forall>run. geminiService env gen params = Inr run \<longrightarrow> truthy (env ''API_KEY''))"
proof (cases "truthy (env ''API_KEY'')")
  case True
  then show ?thesis by simp
next
  case False
  then have "geminiService_init env = Inl (Error ''API_KEY environment variable is not set'')"
    by (simp add: geminiService_init_def)
  then show ?thesis by (simp add: geminiService_def)
qed

theorem api_key_required_witness:
  "geminiService_init Map.empty = Inl (Error ''API_KEY environment variable is not set'')
   \<and> truthy ([''API_KEY'' \<mapsto> ''secret''] ''API_KEY'')"
proof -
  let ?gen = "\<lambda>(ai::GoogleGenAI) (i::nat) (req::GenerateContentRequest). Inl NonError :: js_exn + GenerateContentResponse"
  let ?p = "\<lparr>prompt = ''a cat'', images = [],
       options = \<lparr>aspectRatio = AR_16_9, variations = 4, negativePrompt = []\<rparr>,
       responseType = Image\<rparr>"
  have unset: "\<not> truthy (Map.empty ''API_KEY'')" by (simp add: truthy_def)
  have run: "geminiService [''API_KEY'' \<mapsto> ''secret''] ?gen ?p
               = Inr (callGeminiApi ?gen (GoogleGenAI ''secret'') ?p)"
    by (simp add: geminiService_def geminiService_init_def truthy_def)
  from api_key_required [where env = Map.empty and gen = ?gen and params = ?p] unset
  have "geminiService_init Map.empty = Inl (Error ''API_KEY environment variable is not set'')"
    by blast
  moreover from api_key_required [where env = "[''API_KEY'' \<mapsto> ''secret'']" and gen = ?gen and params = ?p] run
  have "truthy ([''API_KEY'' \<mapsto> ''secret''] ''API_KEY'')" by blast
  ultimately show ?thesis by simp
qed

section \<open>The file input (components/ChatInput.tsx, constants.ts)\<close>

definition MAX_FILE_SIZE_MB :: nat where
  "MAX_FILE_SIZE_MB = 10"

definition MAX_FILE_SIZE_BYTES :: nat where
  "MAX_FILE_SIZE_BYTES = MAX_FILE_SIZE_MB * 1024 * 1024"

definition ACCEPTED_IMAGE_TYPES :: "string list" where
  "ACCEPTED_IMAGE_TYPES = [''image/jpeg'', ''image/png'', ''image/webp'']"

definition ASPECT_RATIOS :: "AspectRatio list" where
  "ASPECT_RATIOS = [AR_1_1, AR_16_9, AR_9_16, AR_4_3, AR_3_4]"

definition VARIATION_OPTIONS :: "nat list" where
  "VARIATION_OPTIONS = [1, 2, 4]"

text \<open>What the code reads of a browser \<open>File\<close>: its name, its media type, its size in bytes.\<close>

record File =
  name_file :: string
  type_file :: string
  size_file :: nat

text \<open>
  The state of the input component, and the messages it has shown with \<open>alert\<close>, oldest
  first.
\<close>

record ChatInputState =
  prompt_input :: string
  files :: "File list"
  previewUrls :: "string list"
  isDragging_input :: bool
  options_input :: GenerationOptions
  alerts :: "string list"

definition invalidTypeAlert :: "File \<Rightarrow> string" where
  "invalidTypeAlert file =
     ''Invalid file type: '' @ name_file file @ ''. Please select a JPEG, PNG, or WEBP file.''"

definition tooLargeAlert :: "File \<Rightarrow> string" where
  "tooLargeAlert file =
     ''File is too large: '' @ name_file file @ ''. Maximum size is ''
       @ toString (MAX_FILE_SIZE_BYTES div 1024 div 1024) @ ''MB.''"

text \<open>
  The \<open>for\<close> loop of \<open>handleFilesChange\<close> over the selected files, with \<open>newFiles\<close>,
  \<open>newUrls\<close> and the alerts raised so far as accumulators. \<open>mk\<close> is
  \<open>URL.createObjectURL\<close>; the URLs it hands out are opaque.
\<close>

fun filesLoop :: "(File \<Rightarrow> string) \<Rightarrow> File list \<Rightarrow> File list \<times> string list \<times> string list
    \<Rightarrow> File list \<times> string list \<times> string list" where
  "filesLoop mk [] acc = acc"
| "filesLoop mk (file # rest) (newFiles, newUrls, shown) =
     (if type_file file \<notin> set ACCEPTED_IMAGE_TYPES
      then filesLoop mk rest (newFiles, newUrls, shown @ [invalidTypeAlert file])
      else if size_file file > MAX_FILE_SIZE_BYTES
      then filesLoop mk rest (newFiles, newUrls, shown @ [tooLargeAlert file])
      else filesLoop mk rest (newFiles @ [file], newUrls @ [mk file], shown))"

definition handleFilesChange :: "(File \<Rightarrow> string) \<Rightarrow> File list option \<Rightarrow> ChatInputState \<Rightarrow> ChatInputState" where
  "handleFilesChange mk selectedFiles s =
     (case selectedFiles of
        None \<Rightarrow> s
      | Some selected \<Rightarrow>
          (case filesLoop mk selected ([], [], []) of
             (newFiles, newUrls, shown) \<Rightarrow>
               s\<lparr>files := files s @ newFiles,
                 previewUrls := previewUrls s @ newUrls,
                 alerts := alerts s @ shown\<rparr>))"

subsection \<open>Per-file validation\<close>

text \<open>
  The two conditions of the specification, for stating the result: a file is accepted when
  its media type is on the allow-list and its size does not exceed the ceiling; a rejected
  file is told why, the media type being checked first.
\<close>

definition accepted :: "File \<Rightarrow> bool" where
  "accepted f \<longleftrightarrow> type_file f \<in> set ACCEPTED_IMAGE_TYPES \<and> size_file f \<le> MAX_FILE_SIZE_BYTES"

definition rejectionAlert :: "File \<Rightarrow> string" where
  "rejectionAlert f =
     (if type_file f \<notin> set ACCEPTED_IMAGE_TYPES then invalidTypeAlert f else tooLargeAlert f)"

lemma filesLoop_filter:
  "filesLoop mk fs (newFiles, newUrls, shown) =
     (newFiles @ filter accepted fs,
      newUrls @ map mk (filter accepted fs),
      shown @ map rejectionAlert (filter (\<lambda>f. \<not> accepted f) fs))"
  by (induction fs arbitrary: newFiles newUrls shown)
     (simp_all add: accepted_def rejectionAlert_def not_le)

text \<open>
  C8. The ceiling is 10 MiB and the allow-list is JPEG, PNG and WEBP. Of every batch exactly
  the accepted files are added to the attached files, in the order of the batch and after
  the files already attached, each with its preview URL, and every other file of the batch
  raises exactly one alert of its own. In particular a batch of three files of which only
  the second is too large leaves two accepted files, the first and the third.
\<close>

theorem invalid_files_rejected_individually:
  "MAX_FILE_SIZE_BYTES = 10 * 2 ^ 20
   \<and> set ACCEPTED_IMAGE_TYPES = {''image/jpeg'', ''image/png'', ''image/webp''}
   \<and> files (handleFilesChange mk (Some batch) s) = files s @ filter accepted batch
   \<and> previewUrls (handleFilesChange mk (Some batch) s) = previewUrls s @ map mk (filter accepted batch)
   \<and> alerts (handleFilesChange mk (Some batch) s)
        = alerts s @ map rejectionAlert (filter (\<lambda>f. \<not> accepted f) batch)
   \<and> (\<forall>f1 f2 f3. accepted f1 \<and> accepted f3
          \<and> type_file f2 \<in> set ACCEPTED_IMAGE_TYPES \<and> size_file f2 > MAX_FILE_SIZE_BYTES \<longrightarrow>
        files (handleFilesChange mk (Some [f1, f2, f3]) s) = files s @ [f1, f3]
        \<and> alerts (handleFilesChange mk (Some [f1, f2, f3]) s) = alerts s @ [tooLargeAlert f2])"
  by (simp add: handleFilesChange_def filesLoop_filter MAX_FILE_SIZE_BYTES_def MAX_FILE_SIZE_MB_def
        ACCEPTED_IMAGE_TYPES_def accepted_def rejectionAlert_def)

theorem invalid_files_rejected_individually_witness:
  "files (handleFilesChange (\<lambda>f. ''blob:'' @ name_file f)
      (Some [\<lparr>name_file = ''a.png'', type_file = ''image/png'', size_file = 1000\<rparr>,
             \<lparr>name_file = ''b.png'', type_file = ''image/png'', size_file = 10485761\<rparr>,
             \<lparr>name_file = ''c.webp'', type_file = ''image/webp'', size_file = 10485760\<rparr>])
      \<lparr>prompt_input = [], files = [], previewUrls = [], isDragging_input = False,
       options_input = \<lparr>aspectRatio = AR_1_1, variations = 1, negativePrompt = []\<rparr>, alerts = []\<rparr>)
   = [\<lparr>name_file = ''a.png'', type_file = ''image/png'', size_file = 1000\<rparr>,
      \<lparr>name_file = ''c.webp'', type_file = ''image/webp'', size_file = 10485760\<rparr>]
   \<and> alerts (handleFilesChange (\<lambda>f. ''blob:'' @ name_file f)
      (Some [\<lparr>name_file = ''a.png'', type_file = ''image/png'', size_file = 1000\<rparr>,
             \<lparr>name_file = ''b.png'', type_file = ''image/png'', size_file = 10485761\<rparr>,
             \<lparr>name_file = ''c.webp'', type_file = ''image/webp'', size_file = 10485760\<rparr>])
      \<lparr>prompt_input = [], files = [], previewUrls = [], isDragging_input = False,
       options_input = \<lparr>aspectRatio = AR_1_1, variations = 1, negativePrompt = []\<rparr>, alerts = []\<rparr>)
   = [''File is too large: b.png. Maximum size is 10MB.'']"
proof -
  let ?f1 = "\<lparr>name_file = ''a.png'', type_file = ''image/png'', size_file = 1000\<rparr>"
  let ?f2 = "\<lparr>name_file = ''b.png'', type_file = ''image/png'', size_file = 10485761\<rparr>"
  let ?f3 = "\<lparr>name_file = ''c.webp'', type_file = ''image/webp'', size_file = 10485760\<rparr>"
  have h: "accepted ?f1 \<and> accepted ?f3
          \<and> type_file ?f2 \<in> set ACCEPTED_IMAGE_TYPES \<and> size_file ?f2 > MAX_FILE_SIZE_BYTES"
    by (simp add: accepted_def ACCEPTED_IMAGE_TYPES_def MAX_FILE_SIZE_BYTES_def MAX_FILE_SIZE_MB_def)
  have t: "tooLargeAlert ?f2 = ''File is too large: b.png. Maximum size is 10MB.''"
    by (simp add: tooLargeAlert_def MAX_FILE_SIZE_BYTES_def MAX_FILE_SIZE_MB_def toString.simps digit_def)
  from invalid_files_rejected_individually [where mk = "\<lambda>f. ''blob:'' @ name_file f" and batch = "[]"
      and s = "\<lparr>prompt_input = [], files = [], previewUrls = [], isDragging_input = False,
       options_input = \<lparr>aspectRatio = AR_1_1, variations = 1, negativePrompt = []\<rparr>, alerts = []\<rparr>"] h t
  show ?thesis by simp
qed

section \<open>The conversation and its orchestration (App.tsx)\<close>

text \<open>
  A string kept in \<open>localStorage\<close> is either the JSON text of an array of messages,
  represented by the array it denotes (\<open>JSON.parse\<close> undoes \<open>JSON.stringify\<close> on
  messages, and an absent field stays absent), or some other text, on which the body of the
  \<open>try\<close> block of the load effect throws (the empty string apart, which is falsy and
  never parsed).
\<close>

datatype StoredText = JsonMessages "ChatMessage list" | OtherText string

text \<open>
  The React state of \<open>App\<close> (\<open>messages\<close>, \<open>isLoading\<close>, \<open>zoomedImageUrl\<close>) together
  with what the component does to the browser: the storage, the lines written with
  \<open>console.error\<close>, the remote calls issued so far and the object URLs revoked so far.
\<close>

record AppState =
  messages :: "ChatMessage list"
  isLoading_app :: bool
  zoomedImageUrl :: "string option"
  localStorage :: "string \<rightharpoonup> StoredText"
  console :: "(string \<times> string) list"
  network :: "GenerateContentRequest list"
  revokedUrls :: "string list"

definition initialApp :: "(string \<rightharpoonup> StoredText) \<Rightarrow> AppState" where
  "initialApp storage =
     \<lparr>messages = [], isLoading_app = False, zoomedImageUrl = None, localStorage = storage,
      console = [], network = [], revokedUrls = []\<rparr>"

text \<open>
  The effect that depends on \<open>messages\<close>:
  \<^verbatim>\<open>
  const savableMessages = messages.filter(msg => !msg.isLoading);
  if (savableMessages.length > 0) localStorage.setItem('chatHistory', JSON.stringify(savableMessages));
  else localStorage.removeItem('chatHistory');
  \<close>
  \<open>setItem\<close> is taken to succeed.
\<close>

definition saveEffect :: "AppState \<Rightarrow> AppState" where
  "saveEffect st =
     (let savableMessages = filter (\<lambda>msg. \<not> truthy_bool (isLoading msg)) (messages st)
      in if length savableMessages > 0
         then st\<lparr>localStorage := (localStorage st)(''chatHistory'' \<mapsto> JsonMessages savableMessages)\<rparr>
         else st\<lparr>localStorage := (localStorage st)(''chatHistory'' := None)\<rparr>)"

text \<open>
  \<open>setMessages\<close> with an updater, followed by the effect that React runs after the render
  with the new \<open>messages\<close>. Updaters are applied at once, in the order of the calls.
\<close>

definition setMessages :: "(ChatMessage list \<Rightarrow> ChatMessage list) \<Rightarrow> AppState \<Rightarrow> AppState" where
  "setMessages f st = saveEffect (st\<lparr>messages := f (messages st)\<rparr>)"

text \<open>
  The effect that runs once, when the component is mounted. It returns the state after its
  own side effects and the value it passes to \<open>setMessages\<close>, if it does. The text of
  the exception that it logs is left empty.
\<close>

definition loadEffect :: "AppState \<Rightarrow> AppState \<times> ChatMessage list option" where
  "loadEffect st =
     (case localStorage st ''chatHistory'' of
        None \<Rightarrow> (st, None)
      | Some (OtherText s) \<Rightarrow>
          if s = [] then (st, None)
          else (st\<lparr>console := console st @ [(''Failed to parse chat history from localStorage'', [])],
                   localStorage := (localStorage st)(''chatHistory'' := None)\<rparr>, None)
      | Some (JsonMessages parsedMessages) \<Rightarrow>
          (st\<lparr>revokedUrls := revokedUrls st @
               concat (map (\<lambda>msg. if role msg = User
                                    then (case imagePreviewUrls msg of Some urls \<Rightarrow> urls | None \<Rightarrow> [])
                                    else []) parsedMessages)\<rparr>,
           Some (filter (\<lambda>msg. \<not> truthy_bool (isLoading msg)) parsedMessages)))"

text \<open>
  Mounting: the load effect, then the save effect of the first render (\<open>messages\<close> is
  still empty there), then the update the load effect asked for.
\<close>

definition mount :: "(string \<rightharpoonup> StoredText) \<Rightarrow> AppState" where
  "mount storage =
     (case loadEffect (initialApp storage) of
        (st, None) \<Rightarrow> saveEffect st
      | (st, Some restored) \<Rightarrow> setMessages (\<lambda>_. restored) (saveEffect st))"

text \<open>
  \<open>String.prototype.split\<close> on a one-character separator, and the element at an index of
  an array (\<^verbatim>\<open>undefined\<close> beyond its end).
\<close>

fun split_on :: "char \<Rightarrow> string \<Rightarrow> string list" where
  "split_on c [] = [[]]"
| "split_on c (x # xs) =
     (if x = c then [] # split_on c xs
      else (case split_on c xs of [] \<Rightarrow> [[x]] | y # ys \<Rightarrow> (x # y) # ys))"

definition element_at :: "'a list \<Rightarrow> nat \<Rightarrow> 'a option" where
  "element_at xs i = (if i < length xs then Some (xs ! i) else None)"

text \<open>
  \<open>filesToImageFiles\<close>: \<open>rd file\<close> is the data URL that the \<open>FileReader\<close> produces for
  the file, or \<open>None\<close> when the reader fires \<open>onerror\<close>; the promise is then rejected with
  the event, which is not an \<open>Error\<close>.
\<close>

definition filesToImageFiles :: "(File \<Rightarrow> string option) \<Rightarrow> File list \<Rightarrow> js_exn + ImageFile list" where
  "filesToImageFiles rd fs =
     Promise_all (map (\<lambda>file. case rd file of
                                 None \<Rightarrow> Inl NonError
                               | Some result \<Rightarrow>
                                   Inr \<lparr>base64 = element_at (split_on CHR '','' result) 1,
                                        mimeType = type_file file\<rparr>) fs)"

definition loadingBotMessage :: "string \<Rightarrow> string \<Rightarrow> ChatMessage" where
  "loadingBotMessage botMessageId uid =
     \<lparr>id_msg = botMessageId, role = Bot, text_msg = None, imagePreviewUrls = None,
      isEditing = None, requestPayload = None, generatedImages = None,
      isLoading = Some True, error_msg = None, userMessageId = Some uid\<rparr>"

definition successBotMessage :: "string \<Rightarrow> string \<Rightarrow> ApiResult \<Rightarrow> ChatMessage" where
  "successBotMessage botMessageId uid response =
     \<lparr>id_msg = botMessageId, role = Bot, text_msg = text_result response, imagePreviewUrls = None,
      isEditing = None, requestPayload = None, generatedImages = images_result response,
      isLoading = None, error_msg = None, userMessageId = Some uid\<rparr>"

definition errorBotMessage :: "string \<Rightarrow> string \<Rightarrow> js_exn \<Rightarrow> ChatMessage" where
  "errorBotMessage botMessageId uid err =
     (let errorMessage = (case err of Error m \<Rightarrow> m | NonError \<Rightarrow> ''An unexpected error occurred.'')
      in \<lparr>id_msg = botMessageId, role = Bot, text_msg = None, imagePreviewUrls = None,
          isEditing = None, requestPayload = None, generatedImages = None,
          isLoading = None, error_msg = Some errorMessage, userMessageId = Some uid\<rparr>)"

text \<open>
  \<^verbatim>\<open>const botMessageId = existingBotMessageId || (Date.now() + 1).toString();\<close>
  where \<open>now\<close> is the reading of the clock.
\<close>

definition botMessageId :: "nat \<Rightarrow> string option \<Rightarrow> string" where
  "botMessageId now existingBotMessageId =
     (if truthy existingBotMessageId then the existingBotMessageId else toString (now + 1))"

text \<open>
  \<open>processRequest\<close> in two halves: up to the call of \<open>callGeminiApi\<close>, and from the moment
  its promise settles.
\<close>

definition processRequest_start :: "nat \<Rightarrow> string \<Rightarrow> string option \<Rightarrow> AppState \<Rightarrow> AppState" where
  "processRequest_start now uid existingBotMessageId st =
     (let st1 = st\<lparr>isLoading_app := True\<rparr>;
          loading = loadingBotMessage (botMessageId now existingBotMessageId) uid
      in if truthy existingBotMessageId
         then setMessages (map (\<lambda>msg. if id_msg msg = the existingBotMessageId then loading else msg)) st1
         else setMessages (\<lambda>prev. prev @ [loading]) st1)"

definition processRequest_settle :: "remote \<Rightarrow> GoogleGenAI \<Rightarrow> PayloadObject \<Rightarrow> string \<Rightarrow> string
    \<Rightarrow> AppState \<Rightarrow> AppState" where
  "processRequest_settle gen ai payload uid bid st =
     (let run = callGeminiApi_object gen ai payload;
          st1 = st\<lparr>network := network st @ issued run, console := console st @ logged run\<rparr>;
          st2 = (case outcome run of
                   Inr response \<Rightarrow>
                     setMessages (map (\<lambda>msg. if id_msg msg = bid
                                              then successBotMessage bid uid response else msg)) st1
                 | Inl err \<Rightarrow>
                     setMessages (map (\<lambda>msg. if id_msg msg = bid
                                              then errorBotMessage bid uid err else msg)) st1)
      in st2\<lparr>isLoading_app := False\<rparr>)"

definition processRequest :: "remote \<Rightarrow> GoogleGenAI \<Rightarrow> nat \<Rightarrow> PayloadObject \<Rightarrow> string \<Rightarrow> string option
    \<Rightarrow> AppState \<Rightarrow> AppState" where
  "processRequest gen ai now payload uid existingBotMessageId st =
     processRequest_settle gen ai payload uid (botMessageId now existingBotMessageId)
       (processRequest_start now uid existingBotMessageId st)"

text \<open>
  \<open>handleSubmit\<close>. \<open>nowU\<close> is the clock when the handler starts, \<open>nowB\<close> the clock when
  \<open>processRequest\<close> draws the id of the bot entry; \<open>mk\<close> is \<open>URL.createObjectURL\<close>.
  When \<open>filesToImageFiles\<close> rejects, the \<open>await\<close> throws and the handler ends there: the
  result carries the rejection and the state it started from.
\<close>

definition userMessage :: "string \<Rightarrow> string \<Rightarrow> string list \<Rightarrow> RequestPayload \<Rightarrow> ChatMessage" where
  "userMessage uid p urls payload =
     \<lparr>id_msg = uid, role = User, text_msg = Some p, imagePreviewUrls = Some urls,
      isEditing = None, requestPayload = Some (Complete payload), generatedImages = None,
      isLoading = None, error_msg = None, userMessageId = None\<rparr>"

definition handleSubmit_begin :: "(File \<Rightarrow> string option) \<Rightarrow> (File \<Rightarrow> string) \<Rightarrow> nat
    \<Rightarrow> string \<Rightarrow> File list \<Rightarrow> GenerationOptions \<Rightarrow> AppState \<Rightarrow> js_exn + RequestPayload \<times> AppState" where
  "handleSubmit_begin rd mk nowU p fs opts st =
     (let uid = toString nowU;
          urls = map mk fs
      in case filesToImageFiles rd fs of
           Inl e \<Rightarrow> Inl e
         | Inr imageFiles \<Rightarrow>
             (let rt = (if length fs > 1 then Text else Image);
                  payload = \<lparr>prompt = p, images = imageFiles, options = opts, responseType = rt\<rparr>
              in Inr (payload, setMessages (\<lambda>prev. prev @ [userMessage uid p urls payload]) st)))"

definition handleSubmit :: "remote \<Rightarrow> GoogleGenAI \<Rightarrow> (File \<Rightarrow> string option) \<Rightarrow> (File \<Rightarrow> string)
    \<Rightarrow> nat \<Rightarrow> nat \<Rightarrow> string \<Rightarrow> File list \<Rightarrow> GenerationOptions \<Rightarrow> AppState
    \<Rightarrow> AppState \<times> js_exn option" where
  "handleSubmit gen ai rd mk nowU nowB p fs opts st =
     (case handleSubmit_begin rd mk nowU p fs opts st of
        Inl e \<Rightarrow> (st, Some e)
      | Inr (payload, st1) \<Rightarrow>
          (processRequest gen ai nowB (Complete payload) (toString nowU) None st1, None))"

text \<open>The same handler while the remote call is in flight.\<close>

definition handleSubmit_pending :: "(File \<Rightarrow> string option) \<Rightarrow> (File \<Rightarrow> string)
    \<Rightarrow> nat \<Rightarrow> nat \<Rightarrow> string \<Rightarrow> File list \<Rightarrow> GenerationOptions \<Rightarrow> AppState
    \<Rightarrow> AppState \<times> js_exn option" where
  "handleSubmit_pending rd mk nowU nowB p fs opts st =
     (case handleSubmit_begin rd mk nowU p fs opts st of
        Inl e \<Rightarrow> (st, Some e)
      | Inr (payload, st1) \<Rightarrow> (processRequest_start nowB (toString nowU) None st1, None))"

text \<open>
  \<open>handleRetry\<close>: \<open>find\<close> yields the first entry that matches.
\<close>

definition handleRetry :: "remote \<Rightarrow> GoogleGenAI \<Rightarrow> nat \<Rightarrow> string \<Rightarrow> AppState \<Rightarrow> AppState" where
  "handleRetry gen ai now uid st =
     (let user = find (\<lambda>msg. id_msg msg = uid) (messages st);
          bot = find (\<lambda>msg. userMessageId msg = Some uid) (messages st);
          failed = st\<lparr>console := console st @
                     [(''Could not find messages to retry for userMessageId:'', uid)]\<rparr>
      in case user of
           None \<Rightarrow> failed
         | Some u \<Rightarrow>
             (case requestPayload u of
                None \<Rightarrow> failed
              | Some payload \<Rightarrow>
                  (case bot of
                     None \<Rightarrow> failed
                   | Some b \<Rightarrow> processRequest gen ai now payload uid (Some (id_msg b)) st)))"

text \<open>
  \<^verbatim>\<open>{ ...payload, prompt: newPrompt }\<close> on a payload that may be absent.
\<close>

definition withPrompt :: "PayloadObject option \<Rightarrow> string \<Rightarrow> PayloadObject" where
  "withPrompt payload newPrompt =
     (case payload of
        None \<Rightarrow> PromptOnly newPrompt
      | Some (PromptOnly _) \<Rightarrow> PromptOnly newPrompt
      | Some (Complete params) \<Rightarrow> Complete (params\<lparr>prompt := newPrompt\<rparr>))"

text \<open>
  The entry that the updater of \<open>handleEdit\<close> returns for an entry with the id:
  \<^verbatim>\<open>{ ...msg, text: newPrompt, requestPayload: { ...msg.requestPayload!, prompt: newPrompt } }\<close>
\<close>

definition editedMessage :: "string \<Rightarrow> ChatMessage \<Rightarrow> ChatMessage" where
  "editedMessage newPrompt msg =
     msg\<lparr>text_msg := Some newPrompt,
         requestPayload := Some (withPrompt (requestPayload msg) newPrompt)\<rparr>"

text \<open>
  \<open>handleEdit\<close>. The updater passed to \<open>setMessages\<close> assigns \<open>originalRequestPayload\<close>
  at every entry with the id, so the payload of the last such entry is what remains once
  the updater has run. React runs the updater either at the call of \<open>setMessages\<close>, when
  no update is pending for the component (\<open>eager\<close>), or only at the next render; in the
  second case \<open>originalRequestPayload\<close> is still \<^verbatim>\<open>undefined\<close> at the test that follows,
  and the handler logs and issues no request. The update itself is applied in both cases.
  The bot entry is looked up in \<open>messages\<close> as they were when the handler was called.
\<close>

definition handleEdit :: "remote \<Rightarrow> GoogleGenAI \<Rightarrow> bool \<Rightarrow> nat \<Rightarrow> string \<Rightarrow> string
    \<Rightarrow> AppState \<Rightarrow> AppState" where
  "handleEdit gen ai eager now uid newPrompt st =
     (let matching = filter (\<lambda>msg. id_msg msg = uid) (messages st);
          originalRequestPayload =
            (if eager \<and> matching \<noteq> [] then requestPayload (last matching) else None);
          st1 = setMessages (map (\<lambda>msg. if id_msg msg = uid then editedMessage newPrompt msg else msg)) st;
          bot = find (\<lambda>msg. userMessageId msg = Some uid) (messages st);
          failed = st1\<lparr>console := console st1 @
                     [(''Could not find messages to edit for userMessageId:'', uid)]\<rparr>
      in case originalRequestPayload of
           None \<Rightarrow> failed
         | Some payload \<Rightarrow>
             (case bot of
                None \<Rightarrow> failed
              | Some b \<Rightarrow>
                  processRequest gen ai now (withPrompt (Some payload) newPrompt) uid (Some (id_msg b)) st1))"

definition handleImageClick :: "string \<Rightarrow> AppState \<Rightarrow> AppState" where
  "handleImageClick base64Image st =
     st\<lparr>zoomedImageUrl := Some (''data:image/png;base64,'' @ base64Image)\<rparr>"

subsection \<open>Identifiers drawn from the clock\<close>





lemma toString_nonempty: "toString n \<noteq> []"
  by (simp add: toString.simps [of n])

text \<open>The id that \<open>processRequest\<close> gives to a bot entry is never the empty string.\<close>

lemma botMessageId_nonempty: "botMessageId now existingBotMessageId \<noteq> []"
  by (cases existingBotMessageId) (simp_all add: botMessageId_def truthy_def toString_nonempty)

subsection \<open>What the state updates leave alone\<close>

lemma saveEffect_fields [simp]:
  "messages (saveEffect st) = messages st"
  "isLoading_app (saveEffect st) = isLoading_app st"
  "zoomedImageUrl (saveEffect st) = zoomedImageUrl st"
  "console (saveEffect st) = console st"
  "network (saveEffect st) = network st"
  "revokedUrls (saveEffect st) = revokedUrls st"
  by (simp_all add: saveEffect_def Let_def)

lemma setMessages_fields [simp]:
  "messages (setMessages f st) = f (messages st)"
  "isLoading_app (setMessages f st) = isLoading_app st"
  "zoomedImageUrl (setMessages f st) = zoomedImageUrl st"
  "console (setMessages f st) = console st"
  "network (setMessages f st) = network st"
  "revokedUrls (setMessages f st) = revokedUrls st"
  by (simp_all add: setMessages_def)

text \<open>The entry that replaces the loading bot entry once a run has settled.\<close>

definition terminalBotMessage :: "string \<Rightarrow> string \<Rightarrow> ApiRun \<Rightarrow> ChatMessage" where
  "terminalBotMessage bid uid run =
     (case outcome run of
        Inr response \<Rightarrow> successBotMessage bid uid response
      | Inl err \<Rightarrow> errorBotMessage bid uid err)"

lemma messages_processRequest_start:
  "messages (processRequest_start now uid ex st) =
     (if truthy ex
      then map (\<lambda>msg. if id_msg msg = the ex then loadingBotMessage (the ex) uid else msg) (messages st)
      else messages st @ [loadingBotMessage (toString (now + 1)) uid])"
  by (simp add: processRequest_start_def botMessageId_def Let_def)

lemma messages_processRequest_settle:
  "messages (processRequest_settle gen ai payload uid bid st) =
     map (\<lambda>msg. if id_msg msg = bid
                 then terminalBotMessage bid uid (callGeminiApi_object gen ai payload) else msg)
       (messages st)"
  by (simp add: processRequest_settle_def terminalBotMessage_def Let_def split: sum.split)

lemma isLoading_app_processRequest_settle [simp]:
  "\<not> isLoading_app (processRequest_settle gen ai payload uid bid st)"
  by (simp add: processRequest_settle_def Let_def)



lemma terminalBotMessage_fields:
  "id_msg (terminalBotMessage bid uid run) = bid"
  "role (terminalBotMessage bid uid run) = Bot"
  "isLoading (terminalBotMessage bid uid run) = None"
  "userMessageId (terminalBotMessage bid uid run) = Some uid"
  "requestPayload (terminalBotMessage bid uid run) = None"
  by (simp_all add: terminalBotMessage_def successBotMessage_def errorBotMessage_def Let_def
      split: sum.split)


subsection \<open>Submitting\<close>

lemma handleSubmit_begin_Inr:
  assumes "filesToImageFiles rd fs = Inr imageFiles"
  shows "handleSubmit_begin rd mk nowU p fs opts st =
           Inr (\<lparr>prompt = p, images = imageFiles, options = opts,
                 responseType = (if length fs > 1 then Text else Image)\<rparr>,
                setMessages (\<lambda>prev. prev @ [userMessage (toString nowU) p (map mk fs)
                   \<lparr>prompt = p, images = imageFiles, options = opts,
                    responseType = (if length fs > 1 then Text else Image)\<rparr>]) st)"
  using assms by (simp add: handleSubmit_begin_def Let_def)





text \<open>
  C5. Whenever a submission gets as far as constructing its payload (its files are read),
  the response type of that payload is \<open>Text\<close> exactly when more than one file is
  attached and \<open>Image\<close> exactly when none or one is; this payload is the one stored in
  the appended user entry and the one handed to \<open>processRequest\<close>.
\<close>

theorem responseType_from_attachment_count:
  assumes "filesToImageFiles rd fs = Inr imageFiles"
  shows "\<exists>payload st1.
      handleSubmit_begin rd mk nowU p fs opts st = Inr (payload, st1)
    \<and> (responseType payload = Text \<longleftrightarrow> 1 < length fs)
    \<and> (responseType payload = Image \<longleftrightarrow> length fs \<le> 1)
    \<and> prompt payload = p \<and> images payload = imageFiles \<and> options payload = opts
    \<and> messages st1 = messages st @ [userMessage (toString nowU) p (map mk fs) payload]
    \<and> requestPayload (userMessage (toString nowU) p (map mk fs) payload) = Some (Complete payload)
    \<and> handleSubmit gen ai rd mk nowU nowB p fs opts st
        = (processRequest gen ai nowB (Complete payload) (toString nowU) None st1, None)"
proof -
  define payload where "payload = \<lparr>prompt = p, images = imageFiles, options = opts,
      responseType = (if length fs > 1 then Text else Image)\<rparr>"
  define st1 where "st1 = setMessages
      (\<lambda>prev. prev @ [userMessage (toString nowU) p (map mk fs) payload]) st"
  have started: "handleSubmit_begin rd mk nowU p fs opts st = Inr (payload, st1)"
    unfolding payload_def st1_def by (rule handleSubmit_begin_Inr [OF assms])
  have kind: "responseType payload = Text \<longleftrightarrow> 1 < length fs"
    "responseType payload = Image \<longleftrightarrow> length fs \<le> 1"
    by (simp_all add: payload_def)
  have fields: "prompt payload = p" "images payload = imageFiles" "options payload = opts"
    by (simp_all add: payload_def)
  have stored: "messages st1 = messages st @ [userMessage (toString nowU) p (map mk fs) payload]"
    "requestPayload (userMessage (toString nowU) p (map mk fs) payload) = Some (Complete payload)"
    by (simp_all add: st1_def userMessage_def)
  have passed: "handleSubmit gen ai rd mk nowU nowB p fs opts st
        = (processRequest gen ai nowB (Complete payload) (toString nowU) None st1, None)"
    by (simp add: handleSubmit_def started)
  from started kind fields stored passed show ?thesis by blast
qed

theorem responseType_from_attachment_count_witness:
  "(\<exists>payload st1.
      handleSubmit_begin (\<lambda>f. Some ''data:image/png;base64,QUJD'') (\<lambda>f. ''blob:'' @ name_file f)
        1700000000000 ''compare these''
        [\<lparr>name_file = ''a.png'', type_file = ''image/png'', size_file = 1000\<rparr>,
         \<lparr>name_file = ''b.png'', type_file = ''image/png'', size_file = 2000\<rparr>]
        \<lparr>aspectRatio = AR_1_1, variations = 1, negativePrompt = []\<rparr> (initialApp Map.empty)
        = Inr (payload, st1) \<and> responseType payload = Text)
   \<and> (\<exists>payload st1.
      handleSubmit_begin (\<lambda>f. Some ''data:image/png;base64,QUJD'') (\<lambda>f. ''blob:'' @ name_file f)
        1700000000000 ''make it blue''
        [\<lparr>name_file = ''a.png'', type_file = ''image/png'', size_file = 1000\<rparr>]
        \<lparr>aspectRatio = AR_1_1, variations = 1, negativePrompt = []\<rparr> (initialApp Map.empty)
        = Inr (payload, st1) \<and> responseType payload = Image)"
proof -
  let ?rd = "\<lambda>f::File. Some ''data:image/png;base64,QUJD''"
  let ?mk = "\<lambda>f::File. ''blob:'' @ name_file f"
  let ?a = "\<lparr>name_file = ''a.png'', type_file = ''image/png'', size_file = 1000\<rparr>"
  let ?b = "\<lparr>name_file = ''b.png'', type_file = ''image/png'', size_file = 2000\<rparr>"
  let ?img = "\<lparr>base64 = Some ''QUJD'', mimeType = ''image/png''\<rparr>"
  let ?gen = "\<lambda>(ai::GoogleGenAI) (i::nat) (req::GenerateContentRequest).
      Inl NonError :: js_exn + GenerateContentResponse"
  have two: "filesToImageFiles ?rd [?a, ?b] = Inr [?img, ?img]"
    by (simp add: filesToImageFiles_def element_at_def)
  have one: "filesToImageFiles ?rd [?a] = Inr [?img]"
    by (simp add: filesToImageFiles_def element_at_def)
  from responseType_from_attachment_count [OF two, where mk = ?mk and nowU = 1700000000000
      and p = "''compare these''" and st = "initialApp Map.empty" and gen = ?gen
      and ai = "GoogleGenAI ''key''" and nowB = 1700000000002
      and opts = "\<lparr>aspectRatio = AR_1_1, variations = 1, negativePrompt = []\<rparr>"]
  have A: "\<exists>payload st1.
      handleSubmit_begin ?rd ?mk 1700000000000 ''compare these'' [?a, ?b]
        \<lparr>aspectRatio = AR_1_1, variations = 1, negativePrompt = []\<rparr> (initialApp Map.empty)
        = Inr (payload, st1) \<and> responseType payload = Text"
    by auto
  from responseType_from_attachment_count [OF one, where mk = ?mk and nowU = 1700000000000
      and p = "''make it blue''" and st = "initialApp Map.empty" and gen = ?gen
      and ai = "GoogleGenAI ''key''" and nowB = 1700000000002
      and opts = "\<lparr>aspectRatio = AR_1_1, variations = 1, negativePrompt = []\<rparr>"]
  have B: "\<exists>payload st1.
      handleSubmit_begin ?rd ?mk 1700000000000 ''make it blue'' [?a]
        \<lparr>aspectRatio = AR_1_1, variations = 1, negativePrompt = []\<rparr> (initialApp Map.empty)
        = Inr (payload, st1) \<and> responseType payload = Image"
    by auto
  from A B show ?thesis by (rule conjI)
qed

subsection \<open>Persistence\<close>

lemma truthy_bool_iff: "truthy_bool b \<longleftrightarrow> b = Some True"
  by (cases b) (auto simp: truthy_bool_def)

lemma localStorage_saveEffect:
  "localStorage (saveEffect st) ''chatHistory'' =
     (if filter (\<lambda>msg. \<not> truthy_bool (isLoading msg)) (messages st) = [] then None
      else Some (JsonMessages (filter (\<lambda>msg. \<not> truthy_bool (isLoading msg)) (messages st))))"
  by (simp add: saveEffect_def Let_def)

lemma messages_mount:
  "messages (mount storage) =
     (case storage ''chatHistory'' of
        Some (JsonMessages parsed) \<Rightarrow> filter (\<lambda>msg. \<not> truthy_bool (isLoading msg)) parsed
      | _ \<Rightarrow> [])"
  by (simp add: mount_def loadEffect_def initialApp_def split: option.split StoredText.split)

text \<open>
  C6. After every update of \<open>messages\<close> the storage key \<open>chatHistory\<close> either is
  absent, and then no entry is left once the loading entries are filtered out, or holds
  the serialised non-empty sequence of exactly the entries that are not loading; it never
  holds an empty sequence or another text. Mounting the application on any storage yields
  no loading entry, and mounting it on the storage just written restores exactly the
  entries that were not loading.
\<close>

theorem persisted_history_has_no_loading_entries:
  "(case localStorage (setMessages f st) ''chatHistory'' of
      None \<Rightarrow> filter (\<lambda>msg. isLoading msg \<noteq> Some True) (messages (setMessages f st)) = []
    | Some (JsonMessages saved) \<Rightarrow>
        saved = filter (\<lambda>msg. isLoading msg \<noteq> Some True) (messages (setMessages f st))
        \<and> saved \<noteq> [] \<and> (\<forall>msg \<in> set saved. isLoading msg \<noteq> Some True)
    | Some (OtherText s) \<Rightarrow> False)
   \<and> (\<forall>msg \<in> set (messages (mount storage)). isLoading msg \<noteq> Some True)
   \<and> messages (mount (localStorage (setMessages f st)))
       = filter (\<lambda>msg. isLoading msg \<noteq> Some True) (messages (setMessages f st))"
proof (intro conjI)
  show "case localStorage (setMessages f st) ''chatHistory'' of
      None \<Rightarrow> filter (\<lambda>msg. isLoading msg \<noteq> Some True) (messages (setMessages f st)) = []
    | Some (JsonMessages saved) \<Rightarrow>
        saved = filter (\<lambda>msg. isLoading msg \<noteq> Some True) (messages (setMessages f st))
        \<and> saved \<noteq> [] \<and> (\<forall>msg \<in> set saved. isLoading msg \<noteq> Some True)
    | Some (OtherText s) \<Rightarrow> False"
    by (simp add: setMessages_def localStorage_saveEffect truthy_bool_iff)
  show "\<forall>msg \<in> set (messages (mount storage)). isLoading msg \<noteq> Some True"
    by (auto simp: messages_mount truthy_bool_iff split: option.split StoredText.split)
  show "messages (mount (localStorage (setMessages f st)))
       = filter (\<lambda>msg. isLoading msg \<noteq> Some True) (messages (setMessages f st))"
    by (simp add: messages_mount setMessages_def localStorage_saveEffect truthy_bool_iff)
qed

theorem persisted_history_has_no_loading_entries_witness:
  "localStorage (setMessages (\<lambda>prev. prev @ [loadingBotMessage ''1700000000003'' ''1700000000000''])
      ((initialApp Map.empty)\<lparr>messages := [errorBotMessage ''1600000000001'' ''1600000000000'' NonError]\<rparr>))
      ''chatHistory''
    = Some (JsonMessages [errorBotMessage ''1600000000001'' ''1600000000000'' NonError])
   \<and> messages (mount [''chatHistory'' \<mapsto>
         JsonMessages [errorBotMessage ''1600000000001'' ''1600000000000'' NonError,
                       loadingBotMessage ''1700000000003'' ''1700000000000'']])
    = [errorBotMessage ''1600000000001'' ''1600000000000'' NonError]"
proof -
  let ?e = "errorBotMessage ''1600000000001'' ''1600000000000'' NonError"
  let ?l = "loadingBotMessage ''1700000000003'' ''1700000000000''"
  let ?st = "(initialApp Map.empty)\<lparr>messages := [?e]\<rparr>"
  let ?f = "\<lambda>prev. prev @ [?l]"
  let ?storage = "[''chatHistory'' \<mapsto> JsonMessages [?e, ?l]]"
  have e: "isLoading ?e = None" by (simp add: errorBotMessage_def)
  have l: "isLoading ?l = Some True" by (simp add: loadingBotMessage_def)
  have A: "localStorage (setMessages ?f ?st) ''chatHistory'' = Some (JsonMessages [?e])"
    using e l by (simp add: setMessages_def saveEffect_def truthy_bool_def)
  from persisted_history_has_no_loading_entries [where f = ?f and st = ?st and storage = ?storage]
  have "\<forall>msg \<in> set (messages (mount ?storage)). isLoading msg \<noteq> Some True" by blast
  moreover have "set (messages (mount ?storage)) \<subseteq> {?e, ?l}"
    by (auto simp: mount_def loadEffect_def initialApp_def)
  moreover have "messages (mount ?storage) = filter (\<lambda>msg. \<not> truthy_bool (isLoading msg)) [?e, ?l]"
    by (simp add: mount_def loadEffect_def initialApp_def)
  ultimately have B: "messages (mount ?storage) = [?e]"
    using e l by (simp add: truthy_bool_def)
  from A B show ?thesis by (rule conjI)
qed

subsection \<open>Retry and edit\<close>

lemma messages_processRequest_existing:
  assumes "b \<noteq> []"
  shows "messages (processRequest gen ai now payload uid (Some b) st) =
     map (\<lambda>msg. if id_msg msg = b
                 then terminalBotMessage b uid (callGeminiApi_object gen ai payload) else msg)
       (messages st)"
proof -
  have bid: "botMessageId now (Some b) = b"
    using assms by (simp add: botMessageId_def truthy_def)
  have "messages (processRequest_start now uid (Some b) st) =
      map (\<lambda>msg. if id_msg msg = b then loadingBotMessage b uid else msg) (messages st)"
    using assms by (simp add: messages_processRequest_start truthy_def)
  then show ?thesis
    unfolding processRequest_def bid messages_processRequest_settle
    by (simp add: loadingBotMessage_def)
qed

lemma replace_by_id_frame:
  assumes "id_msg t = b"
  shows "length (map (\<lambda>msg. if id_msg msg = b then t else msg) xs) = length xs"
    and "map id_msg (map (\<lambda>msg. if id_msg msg = b then t else msg) xs) = map id_msg xs"
    and "\<forall>i < length xs. id_msg (xs ! i) \<noteq> b \<longrightarrow>
           map (\<lambda>msg. if id_msg msg = b then t else msg) xs ! i = xs ! i"
  using assms by auto

lemma id_msg_editedMessage [simp]: "id_msg (editedMessage newPrompt msg) = id_msg msg"
  by (simp add: editedMessage_def)

lemma messages_handleRetry_found:
  assumes "find (\<lambda>m. id_msg m = uid) (messages st) = Some u"
    and "requestPayload u = Some payload"
    and "find (\<lambda>m. userMessageId m = Some uid) (messages st) = Some b"
  shows "handleRetry gen ai now uid st = processRequest gen ai now payload uid (Some (id_msg b)) st"
  using assms by (simp add: handleRetry_def Let_def)

lemma messages_handleEdit_cases:
  assumes "find (\<lambda>m. userMessageId m = Some uid) (messages st) = Some b"
    and "id_msg b \<noteq> []"
  shows "messages (handleEdit gen ai eager now uid newPrompt st)
           = map (\<lambda>msg. if id_msg msg = uid then editedMessage newPrompt msg else msg) (messages st)
       \<or> (\<exists>t. id_msg t = id_msg b \<and> messages (handleEdit gen ai eager now uid newPrompt st)
           = map (\<lambda>msg. if id_msg msg = id_msg b then t else msg)
               (map (\<lambda>msg. if id_msg msg = uid then editedMessage newPrompt msg else msg) (messages st)))"
proof (cases "if eager \<and> filter (\<lambda>msg. id_msg msg = uid) (messages st) \<noteq> []
              then requestPayload (last (filter (\<lambda>msg. id_msg msg = uid) (messages st))) else None")
  case None
  then have "messages (handleEdit gen ai eager now uid newPrompt st)
           = map (\<lambda>msg. if id_msg msg = uid then editedMessage newPrompt msg else msg) (messages st)"
    by (simp add: handleEdit_def Let_def)
  then show ?thesis by blast
next
  case (Some payload)
  let ?t = "terminalBotMessage (id_msg b) uid
              (callGeminiApi_object gen ai (withPrompt (Some payload) newPrompt))"
  from Some assms(1) have "messages (handleEdit gen ai eager now uid newPrompt st)
      = messages (processRequest gen ai now (withPrompt (Some payload) newPrompt) uid (Some (id_msg b))
          (setMessages (map (\<lambda>msg. if id_msg msg = uid then editedMessage newPrompt msg else msg)) st))"
    by (simp add: handleEdit_def Let_def)
  also have "\<dots> = map (\<lambda>msg. if id_msg msg = id_msg b then ?t else msg)
               (map (\<lambda>msg. if id_msg msg = uid then editedMessage newPrompt msg else msg) (messages st))"
    by (simp only: messages_processRequest_existing [OF assms(2)] setMessages_fields)
  finally have "id_msg ?t = id_msg b \<and> messages (handleEdit gen ai eager now uid newPrompt st)
      = map (\<lambda>msg. if id_msg msg = id_msg b then ?t else msg)
               (map (\<lambda>msg. if id_msg msg = uid then editedMessage newPrompt msg else msg) (messages st))"
    by (simp add: terminalBotMessage_fields)
  then show ?thesis by blast
qed

text \<open>
  With a bot entry whose id is not the empty string, retry and edit replace by id.
\<close>

lemma retry_and_edit_frame:
  assumes "find (\<lambda>m. id_msg m = uid) (messages st) = Some u"
    and "requestPayload u = Some payload"
    and "find (\<lambda>m. userMessageId m = Some uid) (messages st) = Some b"
    and "id_msg b \<noteq> []"
  shows "length (messages (handleRetry gen ai now uid st)) = length (messages st)
    \<and> map id_msg (messages (handleRetry gen ai now uid st)) = map id_msg (messages st)
    \<and> (\<forall>i < length (messages st). id_msg (messages st ! i) \<noteq> id_msg b \<longrightarrow>
          messages (handleRetry gen ai now uid st) ! i = messages st ! i)
    \<and> length (messages (handleEdit gen ai eager now uid newPrompt st)) = length (messages st)
    \<and> map id_msg (messages (handleEdit gen ai eager now uid newPrompt st)) = map id_msg (messages st)
    \<and> (\<forall>i < length (messages st).
          id_msg (messages st ! i) \<noteq> id_msg b \<and> id_msg (messages st ! i) \<noteq> uid \<longrightarrow>
          messages (handleEdit gen ai eager now uid newPrompt st) ! i = messages st ! i)"
proof -
  let ?t = "terminalBotMessage (id_msg b) uid (callGeminiApi_object gen ai payload)"
  have retry: "messages (handleRetry gen ai now uid st)
      = map (\<lambda>msg. if id_msg msg = id_msg b then ?t else msg) (messages st)"
    by (simp only: messages_handleRetry_found [OF assms(1-3)]
        messages_processRequest_existing [OF assms(4)])
  have t: "id_msg ?t = id_msg b" by (simp add: terminalBotMessage_fields)
  note r = replace_by_id_frame [OF t, of "messages st", folded retry]
  from messages_handleEdit_cases [OF assms(3,4), of gen ai eager now newPrompt]
  have edit: "length (messages (handleEdit gen ai eager now uid newPrompt st)) = length (messages st)
    \<and> map id_msg (messages (handleEdit gen ai eager now uid newPrompt st)) = map id_msg (messages st)
    \<and> (\<forall>i < length (messages st).
          id_msg (messages st ! i) \<noteq> id_msg b \<and> id_msg (messages st ! i) \<noteq> uid \<longrightarrow>
          messages (handleEdit gen ai eager now uid newPrompt st) ! i = messages st ! i)"
    by (elim disjE exE conjE) (simp_all add: comp_def)
  from r edit show ?thesis by simp
qed

subsection \<open>The states of the running application\<close>

text \<open>
  The states that the application reaches: it is launched on an empty storage; it may be
  reloaded on the storage that it has written itself; a prompt is submitted (the state
  while the call is in flight, and the state once it has settled); an entry is retried or
  edited; an image is opened. A call may also settle after later events, and a retry or an
  edit is in flight for a while, so the two halves of \<open>processRequest\<close> and the update of
  the user entry in \<open>handleEdit\<close> are steps of their own.
\<close>

inductive reachable :: "AppState \<Rightarrow> bool" where
  launch: "reachable (mount Map.empty)"
| reload: "reachable st \<Longrightarrow> reachable (mount (localStorage st))"
| submit_pending:
    "reachable st \<Longrightarrow> reachable (fst (handleSubmit_pending rd mk nowU nowB p fs opts st))"
| submit:
    "reachable st \<Longrightarrow> reachable (fst (handleSubmit gen ai rd mk nowU nowB p fs opts st))"
| retry: "reachable st \<Longrightarrow> reachable (handleRetry gen ai now uid st)"
| edit: "reachable st \<Longrightarrow> reachable (handleEdit gen ai eager now uid newPrompt st)"
| image_click: "reachable st \<Longrightarrow> reachable (handleImageClick base64Image st)"
| started: "reachable st \<Longrightarrow> reachable (processRequest_start now uid existingBotMessageId st)"
| settled: "reachable st \<Longrightarrow> reachable (processRequest_settle gen ai payload uid bid st)"
| edited:
    "reachable st \<Longrightarrow>
     reachable (setMessages (map (\<lambda>msg. if id_msg msg = uid then editedMessage newPrompt msg else msg)) st)"

text \<open>
  No entry of a reachable state, and no entry of the history it has stored, has the empty
  string as its id: ids are drawn from the clock only.
\<close>

definition ids_nonempty :: "ChatMessage list \<Rightarrow> bool" where
  "ids_nonempty ms \<longleftrightarrow> (\<forall>m \<in> set ms. id_msg m \<noteq> [])"

definition well_identified :: "AppState \<Rightarrow> bool" where
  "well_identified st \<longleftrightarrow>
     ids_nonempty (messages st)
     \<and> (\<forall>ms. localStorage st ''chatHistory'' = Some (JsonMessages ms) \<longrightarrow> ids_nonempty ms)"

lemma well_identified_setMessages:
  "ids_nonempty (f (messages st)) \<Longrightarrow> well_identified (setMessages f st)"
  by (auto simp: well_identified_def setMessages_def localStorage_saveEffect ids_nonempty_def)

lemma well_identified_saveEffect:
  "ids_nonempty (messages st) \<Longrightarrow> well_identified (saveEffect st)"
  by (auto simp: well_identified_def localStorage_saveEffect ids_nonempty_def)

lemma well_identified_same:
  "messages st' = messages st \<Longrightarrow> localStorage st' = localStorage st \<Longrightarrow>
     well_identified st' = well_identified st"
  by (simp add: well_identified_def)

lemma ids_nonempty_replace:
  "ids_nonempty ms \<Longrightarrow> id_msg t = b \<Longrightarrow>
     ids_nonempty (map (\<lambda>msg. if id_msg msg = b then t else msg) ms)"
  by (auto simp: ids_nonempty_def)

lemma ids_nonempty_edit:
  "ids_nonempty ms \<Longrightarrow>
     ids_nonempty (map (\<lambda>msg. if id_msg msg = uid then editedMessage newPrompt msg else msg) ms)"
  by (auto simp: ids_nonempty_def)

lemma well_identified_mount:
  assumes "\<forall>ms. storage ''chatHistory'' = Some (JsonMessages ms) \<longrightarrow> ids_nonempty ms"
  shows "well_identified (mount storage)"
proof -
  have ids: "ids_nonempty (messages (mount storage))"
  proof (cases "storage ''chatHistory''")
    case None
    then show ?thesis by (simp add: messages_mount ids_nonempty_def)
  next
    case (Some stored)
    show ?thesis
    proof (cases stored)
      case (JsonMessages parsed)
      with Some assms have "ids_nonempty parsed" by simp
      with Some JsonMessages show ?thesis by (simp add: messages_mount ids_nonempty_def)
    next
      case (OtherText other)
      with Some show ?thesis by (simp add: messages_mount ids_nonempty_def)
    qed
  qed
  have "\<exists>st. mount storage = saveEffect st"
    by (auto simp: mount_def setMessages_def split: prod.split option.split)
  then obtain st where st: "mount storage = saveEffect st" by blast
  with ids have "ids_nonempty (messages st)" by simp
  from well_identified_saveEffect [OF this] st show ?thesis by simp
qed

lemma well_identified_start:
  assumes "well_identified st"
  shows "well_identified (processRequest_start now uid existingBotMessageId st)"
proof -
  from assms have ids: "ids_nonempty (messages st)" by (simp add: well_identified_def)
  show ?thesis
  proof (cases "truthy existingBotMessageId")
    case True
    have "ids_nonempty (map (\<lambda>msg. if id_msg msg = the existingBotMessageId
        then loadingBotMessage (botMessageId now existingBotMessageId) uid else msg) (messages st))"
      using True by (intro ids_nonempty_replace [OF ids])
        (simp add: loadingBotMessage_def botMessageId_def)
    with True show ?thesis
      by (simp add: processRequest_start_def Let_def well_identified_setMessages)
  next
    case False
    have "ids_nonempty (messages st @ [loadingBotMessage (botMessageId now existingBotMessageId) uid])"
      using ids by (simp add: ids_nonempty_def loadingBotMessage_def botMessageId_nonempty)
    with False show ?thesis
      by (simp add: processRequest_start_def Let_def well_identified_setMessages)
  qed
qed

lemma well_identified_replace:
  assumes "well_identified st" and "id_msg t = bid"
  shows "well_identified (setMessages (map (\<lambda>msg. if id_msg msg = bid then t else msg))
           (st\<lparr>network := sent, console := lines\<rparr>)\<lparr>isLoading_app := False\<rparr>)"
proof -
  from assms(1) have "ids_nonempty (messages (st\<lparr>network := sent, console := lines\<rparr>))"
    by (simp add: well_identified_def)
  then have "ids_nonempty (map (\<lambda>msg. if id_msg msg = bid then t else msg)
      (messages (st\<lparr>network := sent, console := lines\<rparr>)))"
    using assms(2) by (rule ids_nonempty_replace)
  then have "well_identified (setMessages (map (\<lambda>msg. if id_msg msg = bid then t else msg))
           (st\<lparr>network := sent, console := lines\<rparr>))"
    by (rule well_identified_setMessages)
  then show ?thesis by (simp add: well_identified_def)
qed

lemma well_identified_settle:
  assumes "well_identified st"
  shows "well_identified (processRequest_settle gen ai payload uid bid st)"
proof (cases "outcome (callGeminiApi_object gen ai payload)")
  case (Inl err)
  have "id_msg (errorBotMessage bid uid err) = bid"
    by (simp add: errorBotMessage_def Let_def)
  from well_identified_replace [OF assms this] Inl show ?thesis
    by (simp add: processRequest_settle_def Let_def)
next
  case (Inr response)
  have "id_msg (successBotMessage bid uid response) = bid"
    by (simp add: successBotMessage_def)
  from well_identified_replace [OF assms this] Inr show ?thesis
    by (simp add: processRequest_settle_def Let_def)
qed

lemma well_identified_processRequest:
  "well_identified st \<Longrightarrow> well_identified (processRequest gen ai now payload uid existingBotMessageId st)"
  by (simp add: processRequest_def well_identified_start well_identified_settle)

lemma well_identified_user_appended:
  assumes "well_identified st" and "handleSubmit_begin rd mk nowU p fs opts st = Inr (payload, st1)"
  shows "well_identified st1"
proof -
  from assms(1) have ids: "ids_nonempty (messages st)" by (simp add: well_identified_def)
  from assms(2) obtain imageFiles where "filesToImageFiles rd fs = Inr imageFiles"
    by (auto simp: handleSubmit_begin_def Let_def split: sum.splits)
  from handleSubmit_begin_Inr [OF this, of mk nowU p opts st] assms(2)
  have st1: "st1 = setMessages (\<lambda>prev. prev @ [userMessage (toString nowU) p (map mk fs) payload]) st"
    by simp
  from ids have "ids_nonempty (messages st @ [userMessage (toString nowU) p (map mk fs) payload])"
    by (simp add: ids_nonempty_def userMessage_def toString_nonempty)
  then show ?thesis unfolding st1 by (rule well_identified_setMessages)
qed

lemma well_identified_submit:
  assumes "well_identified st"
  shows "well_identified (fst (handleSubmit gen ai rd mk nowU nowB p fs opts st))"
    and "well_identified (fst (handleSubmit_pending rd mk nowU nowB p fs opts st))"
proof -
  show "well_identified (fst (handleSubmit gen ai rd mk nowU nowB p fs opts st))"
  proof (cases "handleSubmit_begin rd mk nowU p fs opts st")
    case (Inl e)
    with assms show ?thesis by (simp add: handleSubmit_def)
  next
    case (Inr r)
    then obtain payload st1 where r: "handleSubmit_begin rd mk nowU p fs opts st = Inr (payload, st1)"
      by (cases r) auto
    from well_identified_user_appended [OF assms r] r show ?thesis
      by (simp add: handleSubmit_def well_identified_processRequest)
  qed
  show "well_identified (fst (handleSubmit_pending rd mk nowU nowB p fs opts st))"
  proof (cases "handleSubmit_begin rd mk nowU p fs opts st")
    case (Inl e)
    with assms show ?thesis by (simp add: handleSubmit_pending_def)
  next
    case (Inr r)
    then obtain payload st1 where r: "handleSubmit_begin rd mk nowU p fs opts st = Inr (payload, st1)"
      by (cases r) auto
    from well_identified_user_appended [OF assms r] r show ?thesis
      by (simp add: handleSubmit_pending_def well_identified_start)
  qed
qed

lemma well_identified_retry:
  assumes "well_identified st"
  shows "well_identified (handleRetry gen ai now uid st)"
proof -
  have "well_identified (st\<lparr>console := console st @
          [(''Could not find messages to retry for userMessageId:'', uid)]\<rparr>)"
    using assms by (simp add: well_identified_def)
  with assms show ?thesis
    by (simp add: handleRetry_def Let_def well_identified_processRequest split: option.split)
qed

lemma well_identified_edited:
  assumes "well_identified st"
  shows "well_identified
    (setMessages (map (\<lambda>msg. if id_msg msg = uid then editedMessage newPrompt msg else msg)) st)"
  using assms by (intro well_identified_setMessages ids_nonempty_edit) (simp add: well_identified_def)

lemma well_identified_edit:
  assumes "well_identified st"
  shows "well_identified (handleEdit gen ai eager now uid newPrompt st)"
proof -
  let ?st1 = "setMessages (map (\<lambda>msg. if id_msg msg = uid then editedMessage newPrompt msg else msg)) st"
  have st1: "well_identified ?st1" by (rule well_identified_edited [OF assms])
  then have "well_identified (?st1\<lparr>console := console ?st1 @
          [(''Could not find messages to edit for userMessageId:'', uid)]\<rparr>)"
    by (simp add: well_identified_def)
  with st1 show ?thesis
    by (simp add: handleEdit_def Let_def well_identified_processRequest split: option.split)
qed

lemma reachable_well_identified: "reachable st \<Longrightarrow> well_identified st"
proof (induction rule: reachable.induct)
  case launch
  show ?case by (rule well_identified_mount) simp
next
  case (reload st)
  then show ?case by (intro well_identified_mount) (simp add: well_identified_def)
next
  case (image_click st base64Image)
  then show ?case by (simp add: well_identified_def handleImageClick_def)
qed (simp_all add: well_identified_submit well_identified_retry well_identified_edit
      well_identified_start well_identified_settle well_identified_edited)

text \<open>
  C2. In every state that the application reaches and in which the user entry with the id
  (and a payload of its own) and the bot entry linked to it both exist, retry and edit,
  however React schedules the updater of edit, leave the number of entries and the sequence
  of their ids as they were, so the bot entry keeps its id and its place, and every entry
  whose id is neither that of the bot entry nor, for edit, that of the user entry is
  unchanged.
\<close>

theorem retry_and_edit_replace_in_place:
  assumes "reachable st"
    and "find (\<lambda>m. id_msg m = uid) (messages st) = Some u"
    and "requestPayload u = Some payload"
    and "find (\<lambda>m. userMessageId m = Some uid) (messages st) = Some b"
  shows "length (messages (handleRetry gen ai now uid st)) = length (messages st)
    \<and> map id_msg (messages (handleRetry gen ai now uid st)) = map id_msg (messages st)
    \<and> (\<forall>i < length (messages st). id_msg (messages st ! i) \<noteq> id_msg b \<longrightarrow>
          messages (handleRetry gen ai now uid st) ! i = messages st ! i)
    \<and> length (messages (handleEdit gen ai eager now uid newPrompt st)) = length (messages st)
    \<and> map id_msg (messages (handleEdit gen ai eager now uid newPrompt st)) = map id_msg (messages st)
    \<and> (\<forall>i < length (messages st).
          id_msg (messages st ! i) \<noteq> id_msg b \<and> id_msg (messages st ! i) \<noteq> uid \<longrightarrow>
          messages (handleEdit gen ai eager now uid newPrompt st) ! i = messages st ! i)"
proof -
  from assms(1) have "well_identified st" by (rule reachable_well_identified)
  then have ids: "ids_nonempty (messages st)" by (simp add: well_identified_def)
  from assms(4) have "b \<in> set (messages st)"
    by (auto simp: find_Some_iff)
  with ids have "id_msg b \<noteq> []" by (simp add: ids_nonempty_def)
  with assms(2-4) show ?thesis by (rule retry_and_edit_frame)
qed

lemma messages_after_failed_submit:
  "messages (fst (handleSubmit (\<lambda>ai i req. Inl (Error ''503 overloaded'')) (GoogleGenAI ''key'')
      (\<lambda>f. None) (\<lambda>f. []) 1700000000000 1700000000002 ''a cat'' []
      \<lparr>aspectRatio = AR_1_1, variations = 1, negativePrompt = []\<rparr> (mount Map.empty)))
   = [userMessage ''1700000000000'' ''a cat'' []
        \<lparr>prompt = ''a cat'', images = [],
         options = \<lparr>aspectRatio = AR_1_1, variations = 1, negativePrompt = []\<rparr>,
         responseType = Image\<rparr>,
      errorBotMessage ''1700000000003'' ''1700000000000'' (Error ''API Error: 503 overloaded'')]"
  by (simp add: handleSubmit_def handleSubmit_begin_def filesToImageFiles_def Let_def
      processRequest_def messages_processRequest_settle messages_processRequest_start
      botMessageId_def truthy_def messages_mount userMessage_def loadingBotMessage_def
      terminalBotMessage_def callGeminiApi_object_def outcome_callGeminiApi variationCount_def
      rewrap_def toString.simps digit_def)

theorem retry_and_edit_replace_in_place_witness:
  "map id_msg (messages (handleRetry (\<lambda>ai i req. Inl (Error ''503 overloaded'')) (GoogleGenAI ''key'')
      1700000009999 ''1700000000000''
      (fst (handleSubmit (\<lambda>ai i req. Inl (Error ''503 overloaded'')) (GoogleGenAI ''key'')
        (\<lambda>f. None) (\<lambda>f. []) 1700000000000 1700000000002 ''a cat'' []
        \<lparr>aspectRatio = AR_1_1, variations = 1, negativePrompt = []\<rparr> (mount Map.empty)))))
    = [''1700000000000'', ''1700000000003'']
   \<and> map id_msg (messages (handleEdit (\<lambda>ai i req. Inl (Error ''503 overloaded'')) (GoogleGenAI ''key'')
      True 1700000009999 ''1700000000000'' ''a dog''
      (fst (handleSubmit (\<lambda>ai i req. Inl (Error ''503 overloaded'')) (GoogleGenAI ''key'')
        (\<lambda>f. None) (\<lambda>f. []) 1700000000000 1700000000002 ''a cat'' []
        \<lparr>aspectRatio = AR_1_1, variations = 1, negativePrompt = []\<rparr> (mount Map.empty)))))
    = [''1700000000000'', ''1700000000003'']
   \<and> map id_msg (messages (handleEdit (\<lambda>ai i req. Inl (Error ''503 overloaded'')) (GoogleGenAI ''key'')
      False 1700000009999 ''1700000000000'' ''a dog''
      (fst (handleSubmit (\<lambda>ai i req. Inl (Error ''503 overloaded'')) (GoogleGenAI ''key'')
        (\<lambda>f. None) (\<lambda>f. []) 1700000000000 1700000000002 ''a cat'' []
        \<lparr>aspectRatio = AR_1_1, variations = 1, negativePrompt = []\<rparr> (mount Map.empty)))))
    = [''1700000000000'', ''1700000000003'']"
proof -
  let ?gen = "\<lambda>(ai::GoogleGenAI) (i::nat) (req::GenerateContentRequest).
      Inl (Error ''503 overloaded'') :: js_exn + GenerateContentResponse"
  let ?ai = "GoogleGenAI ''key''"
  let ?opts = "\<lparr>aspectRatio = AR_1_1, variations = 1, negativePrompt = []\<rparr>"
  let ?payload = "\<lparr>prompt = ''a cat'', images = [], options = ?opts, responseType = Image\<rparr>"
  let ?u = "userMessage ''1700000000000'' ''a cat'' [] ?payload"
  let ?b = "errorBotMessage ''1700000000003'' ''1700000000000'' (Error ''API Error: 503 overloaded'')"
  let ?st = "fst (handleSubmit ?gen ?ai (\<lambda>f. None) (\<lambda>f. []) 1700000000000 1700000000002
      ''a cat'' [] ?opts (mount Map.empty))"
  have msgs: "messages ?st = [?u, ?b]" by (rule messages_after_failed_submit)
  have h0: "reachable ?st" by (intro reachable.submit reachable.launch)
  have h1: "find (\<lambda>m. id_msg m = ''1700000000000'') (messages ?st) = Some ?u"
    unfolding msgs by (simp add: userMessage_def)
  have h2: "requestPayload ?u = Some (Complete ?payload)"
    by (simp add: userMessage_def)
  have h3: "find (\<lambda>m. userMessageId m = Some ''1700000000000'') (messages ?st) = Some ?b"
    unfolding msgs by (simp add: userMessage_def errorBotMessage_def)
  have ids: "map id_msg (messages ?st) = [''1700000000000'', ''1700000000003'']"
    unfolding msgs by (simp add: userMessage_def errorBotMessage_def)
  from retry_and_edit_replace_in_place [OF h0 h1 h2 h3, where gen = ?gen and ai = ?ai
      and now = 1700000009999 and newPrompt = "''a dog''" and eager = True]
    retry_and_edit_replace_in_place [OF h0 h1 h2 h3, where gen = ?gen and ai = ?ai
      and now = 1700000009999 and newPrompt = "''a dog''" and eager = False]
  show ?thesis by (simp only: ids simp_thms)
qed

text \<open>
  The restriction to the states of the running application matters only for a history that
  the application has not written: a bot entry whose id is the empty string counts as no
  id in \<open>processRequest\<close>, which then draws a new id and appends an entry.
\<close>

lemma planted_empty_id_is_not_reused:
  "map id_msg (messages (handleRetry (\<lambda>ai i req. Inl (Error ''503 overloaded'')) (GoogleGenAI ''key'')
      1700000009999 ''1700000000000''
      ((initialApp Map.empty)\<lparr>messages :=
         [userMessage ''1700000000000'' ''a cat'' []
            \<lparr>prompt = ''a cat'', images = [],
             options = \<lparr>aspectRatio = AR_1_1, variations = 2, negativePrompt = []\<rparr>,
             responseType = Image\<rparr>,
          errorBotMessage [] ''1700000000000'' (Error ''API Error: 503 overloaded'')]\<rparr>)))
     = [''1700000000000'', [], ''1700000010000'']"
  by (simp add: handleRetry_def Let_def processRequest_def messages_processRequest_settle
      messages_processRequest_start botMessageId_def truthy_def initialApp_def userMessage_def
      errorBotMessage_def loadingBotMessage_def terminalBotMessage_fields toString.simps digit_def)

subsection \<open>Retry and edit without their target\<close>

lemma find_by_payload_None:
  assumes "\<forall>m \<in> set xs. id_msg m = uid \<longrightarrow> requestPayload m = None"
  shows "(case find (\<lambda>m. id_msg m = uid) xs of None \<Rightarrow> None | Some u \<Rightarrow> requestPayload u) = None"
  using assms by (auto split: option.split simp: find_Some_iff)

lemma last_matching_payload_None:
  assumes "\<forall>m \<in> set xs. id_msg m = uid \<longrightarrow> requestPayload m = None"
  shows "(if eager \<and> filter (\<lambda>msg. id_msg msg = uid) xs \<noteq> []
          then requestPayload (last (filter (\<lambda>msg. id_msg msg = uid) xs)) else None) = None"
proof (cases "filter (\<lambda>msg. id_msg msg = uid) xs = []")
  case True
  then show ?thesis by simp
next
  case False
  then have "last (filter (\<lambda>msg. id_msg msg = uid) xs) \<in> set (filter (\<lambda>msg. id_msg msg = uid) xs)"
    by (rule last_in_set)
  with assms show ?thesis by auto
qed

lemma find_bot_None:
  assumes "\<forall>m \<in> set xs. userMessageId m \<noteq> Some uid"
  shows "find (\<lambda>m. userMessageId m = Some uid) xs = None"
  using assms by (simp add: find_None_iff)

lemma map_edit_fresh:
  "uid \<notin> id_msg ` set xs \<Longrightarrow> map (\<lambda>msg. if id_msg msg = uid then f msg else msg) xs = xs"
  by (induction xs) auto

lemma handleRetry_aborted:
  assumes "(\<forall>m \<in> set (messages st). id_msg m = uid \<longrightarrow> requestPayload m = None)
         \<or> (\<forall>m \<in> set (messages st). userMessageId m \<noteq> Some uid)"
  shows "handleRetry gen ai now uid st =
     st\<lparr>console := console st @ [(''Could not find messages to retry for userMessageId:'', uid)]\<rparr>"
  using assms
proof
  assume "\<forall>m \<in> set (messages st). id_msg m = uid \<longrightarrow> requestPayload m = None"
  from find_by_payload_None [OF this] show ?thesis
    by (simp add: handleRetry_def Let_def split: option.splits)
next
  assume "\<forall>m \<in> set (messages st). userMessageId m \<noteq> Some uid"
  from find_bot_None [OF this] show ?thesis
    by (simp add: handleRetry_def Let_def split: option.splits)
qed

lemma handleEdit_aborted:
  assumes "(\<forall>m \<in> set (messages st). id_msg m = uid \<longrightarrow> requestPayload m = None)
         \<or> (\<forall>m \<in> set (messages st). userMessageId m \<noteq> Some uid)"
  shows "handleEdit gen ai eager now uid newPrompt st =
     (setMessages (map (\<lambda>msg. if id_msg msg = uid then editedMessage newPrompt msg else msg)) st)
       \<lparr>console := console st @ [(''Could not find messages to edit for userMessageId:'', uid)]\<rparr>"
  using assms
proof
  assume "\<forall>m \<in> set (messages st). id_msg m = uid \<longrightarrow> requestPayload m = None"
  from last_matching_payload_None [OF this] show ?thesis
    by (simp add: handleEdit_def Let_def)
next
  assume "\<forall>m \<in> set (messages st). userMessageId m \<noteq> Some uid"
  from find_bot_None [OF this] show ?thesis
    by (simp add: handleEdit_def Let_def split: option.splits)
qed

text \<open>
  When React runs the updater only at the next render, edit gives up its re-run in every
  state, also when both entries exist.
\<close>

lemma handleEdit_deferred:
  "handleEdit gen ai False now uid newPrompt st =
     (setMessages (map (\<lambda>msg. if id_msg msg = uid then editedMessage newPrompt msg else msg)) st)
       \<lparr>console := console st @ [(''Could not find messages to edit for userMessageId:'', uid)]\<rparr>"
  by (simp add: handleEdit_def Let_def)

text \<open>
  C7 (as amended). When no entry with the id carries a payload (there is no such entry, or
  it lacks its payload), or no bot entry is linked to the id, retry changes nothing but the
  console, to which it adds one line. Edit, however React schedules its updater, adds its
  line to the console as well, issues no remote call, leaves the loading flag of the
  application alone and keeps every entry in its place; but it does not leave the entries
  unchanged: every entry with the id holds the new prompt, in its text and in its payload,
  as the update at the beginning of edit makes it. Every other entry is as it was, no entry
  changes its loading flag or its error, and when no entry has the id all entries are
  unchanged.
\<close>

theorem missing_target_aborts_rerun:
  assumes "(\<forall>m \<in> set (messages st). id_msg m = uid \<longrightarrow> requestPayload m = None)
         \<or> (\<forall>m \<in> set (messages st). userMessageId m \<noteq> Some uid)"
  shows "handleRetry gen ai now uid st =
       st\<lparr>console := console st @ [(''Could not find messages to retry for userMessageId:'', uid)]\<rparr>
    \<and> console (handleEdit gen ai eager now uid newPrompt st) =
       console st @ [(''Could not find messages to edit for userMessageId:'', uid)]
    \<and> network (handleEdit gen ai eager now uid newPrompt st) = network st
    \<and> isLoading_app (handleEdit gen ai eager now uid newPrompt st) = isLoading_app st
    \<and> length (messages (handleEdit gen ai eager now uid newPrompt st)) = length (messages st)
    \<and> (\<forall>i < length (messages st).
          messages (handleEdit gen ai eager now uid newPrompt st) ! i =
            (if id_msg (messages st ! i) = uid
             then (messages st ! i)\<lparr>text_msg := Some newPrompt,
                    requestPayload := Some (withPrompt (requestPayload (messages st ! i)) newPrompt)\<rparr>
             else messages st ! i))
    \<and> map isLoading (messages (handleEdit gen ai eager now uid newPrompt st)) = map isLoading (messages st)
    \<and> map error_msg (messages (handleEdit gen ai eager now uid newPrompt st)) = map error_msg (messages st)
    \<and> (uid \<notin> id_msg ` set (messages st) \<longrightarrow>
          messages (handleEdit gen ai eager now uid newPrompt st) = messages st)"
proof -
  note retry = handleRetry_aborted [OF assms, of gen ai now]
  note edit = handleEdit_aborted [OF assms, of gen ai eager now newPrompt]
  have unchanged: "uid \<notin> id_msg ` set (messages st) \<longrightarrow>
      messages (handleEdit gen ai eager now uid newPrompt st) = messages st"
    by (simp add: edit map_edit_fresh)
  have flags: "map isLoading (messages (handleEdit gen ai eager now uid newPrompt st)) = map isLoading (messages st)"
    "map error_msg (messages (handleEdit gen ai eager now uid newPrompt st)) = map error_msg (messages st)"
    by (simp_all add: edit editedMessage_def)
  have entries: "\<forall>i < length (messages st).
          messages (handleEdit gen ai eager now uid newPrompt st) ! i =
            (if id_msg (messages st ! i) = uid
             then (messages st ! i)\<lparr>text_msg := Some newPrompt,
                    requestPayload := Some (withPrompt (requestPayload (messages st ! i)) newPrompt)\<rparr>
             else messages st ! i)"
    by (simp add: edit editedMessage_def)
  have effects: "console (handleEdit gen ai eager now uid newPrompt st) =
       console st @ [(''Could not find messages to edit for userMessageId:'', uid)]"
    "network (handleEdit gen ai eager now uid newPrompt st) = network st"
    "isLoading_app (handleEdit gen ai eager now uid newPrompt st) = isLoading_app st"
    "length (messages (handleEdit gen ai eager now uid newPrompt st)) = length (messages st)"
    by (simp_all add: edit)
  from retry effects entries flags unchanged show ?thesis
    by (intro conjI)
qed


text \<open>
  The state after the page was reloaded while the call of a first submission was still in
  flight: the loading bot entry was not stored, so the restored history holds the user
  entry alone.
\<close>

lemma messages_after_reload_in_flight:
  "messages (mount (localStorage (fst (handleSubmit_pending (\<lambda>f. None) (\<lambda>f. [])
      1700000000000 1700000000002 ''a cat'' []
      \<lparr>aspectRatio = AR_1_1, variations = 2, negativePrompt = []\<rparr> (mount Map.empty)))))
   = [userMessage ''1700000000000'' ''a cat'' []
        \<lparr>prompt = ''a cat'', images = [],
         options = \<lparr>aspectRatio = AR_1_1, variations = 2, negativePrompt = []\<rparr>,
         responseType = Image\<rparr>]"
  by (simp add: handleSubmit_pending_def handleSubmit_begin_def filesToImageFiles_def Let_def
      processRequest_start_def setMessages_def localStorage_saveEffect messages_mount
      botMessageId_def truthy_def truthy_bool_def userMessage_def loadingBotMessage_def
      toString.simps digit_def)

lemma reload_in_flight_reachable:
  "reachable (mount (localStorage (fst (handleSubmit_pending (\<lambda>f. None) (\<lambda>f. [])
      1700000000000 1700000000002 ''a cat'' []
      \<lparr>aspectRatio = AR_1_1, variations = 2, negativePrompt = []\<rparr> (mount Map.empty)))))"
  by (intro reachable.reload reachable.submit_pending reachable.launch)

text \<open>
  The claim fails as it is stated, for edit: in that state no bot entry is linked to the
  user entry, edit gives up its re-run and issues no request, and yet the user entry has
  changed, under either schedule of the updater.
\<close>

theorem aborted_edit_counterexample:
  "find (\<lambda>m. userMessageId m = Some ''1700000000000'')
      (messages (mount (localStorage (fst (handleSubmit_pending (\<lambda>f. None) (\<lambda>f. [])
        1700000000000 1700000000002 ''a cat'' []
        \<lparr>aspectRatio = AR_1_1, variations = 2, negativePrompt = []\<rparr> (mount Map.empty)))))) = None
   \<and> map text_msg
      (messages (mount (localStorage (fst (handleSubmit_pending (\<lambda>f. None) (\<lambda>f. [])
        1700000000000 1700000000002 ''a cat'' []
        \<lparr>aspectRatio = AR_1_1, variations = 2, negativePrompt = []\<rparr> (mount Map.empty))))))
     = [Some ''a cat'']
   \<and> map text_msg (messages (handleEdit (\<lambda>ai i req. Inl NonError) (GoogleGenAI ''key'') True
        1700000009999 ''1700000000000'' ''a dog''
        (mount (localStorage (fst (handleSubmit_pending (\<lambda>f. None) (\<lambda>f. [])
          1700000000000 1700000000002 ''a cat'' []
          \<lparr>aspectRatio = AR_1_1, variations = 2, negativePrompt = []\<rparr> (mount Map.empty)))))))
     = [Some ''a dog'']
   \<and> map text_msg (messages (handleEdit (\<lambda>ai i req. Inl NonError) (GoogleGenAI ''key'') False
        1700000009999 ''1700000000000'' ''a dog''
        (mount (localStorage (fst (handleSubmit_pending (\<lambda>f. None) (\<lambda>f. [])
          1700000000000 1700000000002 ''a cat'' []
          \<lparr>aspectRatio = AR_1_1, variations = 2, negativePrompt = []\<rparr> (mount Map.empty)))))))
     = [Some ''a dog'']"
proof -
  let ?u = "userMessage ''1700000000000'' ''a cat'' []
        \<lparr>prompt = ''a cat'', images = [],
         options = \<lparr>aspectRatio = AR_1_1, variations = 2, negativePrompt = []\<rparr>,
         responseType = Image\<rparr>"
  have edit: "map text_msg (messages (handleEdit gen ai eager now ''1700000000000'' ''a dog'' st))
      = [Some ''a dog'']" if "messages st = [?u]" for gen ai eager now st
    using that by (simp add: handleEdit_def Let_def userMessage_def editedMessage_def)
  have before: "find (\<lambda>m. userMessageId m = Some ''1700000000000'') (messages st) = None
      \<and> map text_msg (messages st) = [Some ''a cat'']" if "messages st = [?u]" for st :: AppState
    using that by (simp add: userMessage_def)
  from before [OF messages_after_reload_in_flight]
    edit [OF messages_after_reload_in_flight, of "\<lambda>ai i req. Inl NonError" "GoogleGenAI ''key''" True 1700000009999]
    edit [OF messages_after_reload_in_flight, of "\<lambda>ai i req. Inl NonError" "GoogleGenAI ''key''" False 1700000009999]
  show ?thesis by (intro conjI) (erule conjunct1, erule conjunct2, assumption+)
qed

theorem missing_target_aborts_rerun_witness:
  "messages (handleRetry (\<lambda>ai i req. Inl NonError) (GoogleGenAI ''key'') 1700000009999 ''1700000000000''
      (mount (localStorage (fst (handleSubmit_pending (\<lambda>f. None) (\<lambda>f. [])
        1700000000000 1700000000002 ''a cat'' []
        \<lparr>aspectRatio = AR_1_1, variations = 2, negativePrompt = []\<rparr> (mount Map.empty))))))
    = [userMessage ''1700000000000'' ''a cat'' []
        \<lparr>prompt = ''a cat'', images = [],
         options = \<lparr>aspectRatio = AR_1_1, variations = 2, negativePrompt = []\<rparr>,
         responseType = Image\<rparr>]
   \<and> network (handleEdit (\<lambda>ai i req. Inl NonError) (GoogleGenAI ''key'') True 1700000009999
      ''1700000000000'' ''a dog''
      (mount (localStorage (fst (handleSubmit_pending (\<lambda>f. None) (\<lambda>f. [])
        1700000000000 1700000000002 ''a cat'' []
        \<lparr>aspectRatio = AR_1_1, variations = 2, negativePrompt = []\<rparr> (mount Map.empty)))))) = []
   \<and> messages (handleEdit (\<lambda>ai i req. Inl NonError) (GoogleGenAI ''key'') True 1700000009999
      ''1700000000000'' ''a dog''
      (mount (localStorage (fst (handleSubmit_pending (\<lambda>f. None) (\<lambda>f. [])
        1700000000000 1700000000002 ''a cat'' []
        \<lparr>aspectRatio = AR_1_1, variations = 2, negativePrompt = []\<rparr> (mount Map.empty))))))
    = [userMessage ''1700000000000'' ''a dog'' []
        \<lparr>prompt = ''a dog'', images = [],
         options = \<lparr>aspectRatio = AR_1_1, variations = 2, negativePrompt = []\<rparr>,
         responseType = Image\<rparr>]"
proof -
  let ?opts = "\<lparr>aspectRatio = AR_1_1, variations = 2, negativePrompt = []\<rparr>"
  let ?payload = "\<lparr>prompt = ''a cat'', images = [], options = ?opts, responseType = Image\<rparr>"
  let ?u = "userMessage ''1700000000000'' ''a cat'' [] ?payload"
  let ?st = "mount (localStorage (fst (handleSubmit_pending (\<lambda>f. None) (\<lambda>f. [])
        1700000000000 1700000000002 ''a cat'' [] ?opts (mount Map.empty))))"
  let ?gen = "\<lambda>(ai::GoogleGenAI) (i::nat) (req::GenerateContentRequest).
      Inl NonError :: js_exn + GenerateContentResponse"
  have msgs: "messages ?st = [?u]" by (rule messages_after_reload_in_flight)
  have h: "(\<forall>m \<in> set (messages ?st). id_msg m = ''1700000000000'' \<longrightarrow> requestPayload m = None)
         \<or> (\<forall>m \<in> set (messages ?st). userMessageId m \<noteq> Some ''1700000000000'')"
    unfolding msgs by (simp add: userMessage_def)
  have net: "network ?st = []"
    by (simp add: mount_def loadEffect_def initialApp_def split: option.split StoredText.split)
  note t = missing_target_aborts_rerun [OF h, where gen = ?gen and ai = "GoogleGenAI ''key''"
      and now = 1700000009999 and newPrompt = "''a dog''" and eager = True]
  from t have retry: "messages (handleRetry ?gen (GoogleGenAI ''key'') 1700000009999 ''1700000000000'' ?st)
      = [?u]"
    by (simp add: msgs)
  from t net have sent: "network (handleEdit ?gen (GoogleGenAI ''key'') True 1700000009999
      ''1700000000000'' ''a dog'' ?st) = []"
    by simp
  from t have len: "length (messages (handleEdit ?gen (GoogleGenAI ''key'') True 1700000009999
      ''1700000000000'' ''a dog'' ?st)) = 1"
    and first: "messages (handleEdit ?gen (GoogleGenAI ''key'') True 1700000009999
      ''1700000000000'' ''a dog'' ?st) ! 0
      = ?u\<lparr>text_msg := Some ''a dog'',
            requestPayload := Some (withPrompt (requestPayload ?u) ''a dog'')\<rparr>"
    unfolding msgs by (simp_all add: userMessage_def)
  from len first have edited: "messages (handleEdit ?gen (GoogleGenAI ''key'') True 1700000009999
      ''1700000000000'' ''a dog'' ?st)
      = [userMessage ''1700000000000'' ''a dog'' []
          \<lparr>prompt = ''a dog'', images = [], options = ?opts, responseType = Image\<rparr>]"
    by (cases "messages (handleEdit ?gen (GoogleGenAI ''key'') True 1700000009999
      ''1700000000000'' ''a dog'' ?st)") (simp_all add: userMessage_def withPrompt_def)
  from retry sent edited show ?thesis by (intro conjI)
qed

section \<open>The image viewer (components/ImageModal.tsx)\<close>

text \<open>
  The modal keeps three pieces of React state: \<open>zoom\<close> (initially 1), \<open>translate\<close>
  (initially the origin) and \<open>isDragging\<close> (initially false).

  JavaScript numbers are IEEE doubles, so every arithmetic result is rounded. The rounding
  is the parameter \<open>fl\<close> of the model and is left arbitrary; the identity gives exact
  arithmetic. \<open>Math.max\<close> and \<open>Math.min\<close> select one of their arguments and do not
  round. \<open>deltaY\<close> of a wheel event is a finite double.
\<close>

record ImageModalState =
  zoom :: real
  translate :: "real \<times> real"
  isDragging :: bool

definition initialModal :: ImageModalState where
  "initialModal = \<lparr>zoom = 1, translate = (0, 0), isDragging = False\<rparr>"

text \<open>
  \<^verbatim>\<open>
  const zoomFactor = 0.1;
  setZoom(prevZoom => {
    const newZoom = prevZoom - e.deltaY * zoomFactor * 0.1;
    return Math.max(0.5, Math.min(newZoom, 5));
  });
  \<close>
\<close>

definition handleWheel :: "(real \<Rightarrow> real) \<Rightarrow> real \<Rightarrow> ImageModalState \<Rightarrow> ImageModalState" where
  "handleWheel fl deltaY s =
     (let zoomFactor = fl (1 / 10);
          prevZoom = zoom s;
          newZoom = fl (prevZoom - fl (fl (deltaY * zoomFactor) * fl (1 / 10)))
      in s\<lparr>zoom := max (1 / 2) (min newZoom 5)\<rparr>)"

text \<open>The viewer after a sequence of wheel events, oldest first.\<close>

definition wheelEvents :: "(real \<Rightarrow> real) \<Rightarrow> real list \<Rightarrow> ImageModalState" where
  "wheelEvents fl deltas = foldl (\<lambda>s d. handleWheel fl d s) initialModal deltas"

subsection \<open>Zoom stays clamped\<close>

lemma handleWheel_zoom_range:
  "1 / 2 \<le> zoom (handleWheel fl d s) \<and> zoom (handleWheel fl d s) \<le> 5"
  by (simp add: handleWheel_def Let_def)

lemma wheelEvents_snoc:
  "wheelEvents fl (ds @ [d]) = handleWheel fl d (wheelEvents fl ds)"
  by (simp add: wheelEvents_def)

text \<open>
  C9. Whatever the wheel deltas are (any magnitude, any sign) and however the arithmetic
  rounds, the zoom after each of the updates, that is after the first \<open>k\<close> events for
  every \<open>k\<close>, lies in the closed interval from 0.5 to 5.
\<close>

theorem zoom_always_clamped:
  "1 / 2 \<le> zoom (wheelEvents fl (take k deltas)) \<and> zoom (wheelEvents fl (take k deltas)) \<le> 5"
proof -
  define seen where "seen = take k deltas"
  have "1 / 2 \<le> zoom (wheelEvents fl seen) \<and> zoom (wheelEvents fl seen) \<le> 5"
  proof (cases seen rule: rev_cases)
    case Nil
    then show ?thesis by (simp add: wheelEvents_def initialModal_def)
  next
    case (snoc earlier d)
    have "wheelEvents fl (earlier @ [d]) = handleWheel fl d (wheelEvents fl earlier)"
      by (rule wheelEvents_snoc)
    moreover have "1 / 2 \<le> zoom (handleWheel fl d (wheelEvents fl earlier))
        \<and> zoom (handleWheel fl d (wheelEvents fl earlier)) \<le> 5"
      by (rule handleWheel_zoom_range)
    ultimately show ?thesis using snoc by simp
  qed
  then show ?thesis by (simp only: seen_def)
qed

end
